theory Spec2Isabelle
  imports Main "HOL-Library.FSet"
begin

section \<open>Data model (models.py)\<close>

text \<open>
  A row of \<open>CustomUser\<close>: the primary key, the \<open>reputation\<close> field (an
  \<open>IntegerField\<close>, default 0; Python integers are unbounded, so \<open>int\<close>) and the
  \<open>is_superuser\<close> flag inherited from \<open>AbstractUser\<close>.
\<close>

record custom_user =
  user_id :: nat
  reputation :: int
  is_superuser :: bool

text \<open>
  A row of \<open>Tip\<close>. \<open>author\<close> is the foreign key (the author's primary key). The two
  many-to-many relations hold each user at most once, so they are finite sets of user
  keys: \<open>add\<close> is insertion, \<open>remove\<close> is deletion, \<open>count()\<close> is the cardinality.
\<close>

record tip =
  tip_id :: nat
  content :: string
  author :: nat
  date :: nat
  upvotes :: "nat fset"
  downvotes :: "nat fset"

text \<open>
  The persistent state: the two tables, each a list of rows, and the key sequence of the
  tip table, that is the last primary key it has handed out. A new tip gets the next key,
  and the key of a deleted tip is not handed out again.
\<close>

record db =
  users :: "custom_user list"
  tips :: "tip list"
  tip_seq :: nat

subsection \<open>Queries and writes of the object-relational mapper\<close>

definition get_user :: "db \<Rightarrow> nat \<Rightarrow> custom_user option" where
  "get_user d uid = find (\<lambda>u. user_id u = uid) (users d)"

definition get_tip :: "db \<Rightarrow> nat \<Rightarrow> tip option" where
  "get_tip d tid = find (\<lambda>t. tip_id t = tid) (tips d)"

text \<open>\<open>self.save()\<close> on a user: update the row with this key, insert it when there is none.\<close>

definition save_user :: "custom_user \<Rightarrow> db \<Rightarrow> db" where
  "save_user self d =
     d\<lparr>users :=
        (if list_ex (\<lambda>u. user_id u = user_id self) (users d)
         then map (\<lambda>u. if user_id u = user_id self then self else u) (users d)
         else users d @ [self])\<rparr>"

text \<open>\<open>tip.upvotes.all()\<close> and \<open>tip.downvotes.all()\<close>: a fresh query at every use.\<close>

definition upvotes_all :: "db \<Rightarrow> nat \<Rightarrow> nat fset" where
  "upvotes_all d tid = (case get_tip d tid of None \<Rightarrow> {||} | Some t \<Rightarrow> upvotes t)"

definition downvotes_all :: "db \<Rightarrow> nat \<Rightarrow> nat fset" where
  "downvotes_all d tid = (case get_tip d tid of None \<Rightarrow> {||} | Some t \<Rightarrow> downvotes t)"

definition upvotes_add :: "nat \<Rightarrow> nat \<Rightarrow> db \<Rightarrow> db" where
  "upvotes_add tid uid d =
     d\<lparr>tips := map (\<lambda>t. if tip_id t = tid then t\<lparr>upvotes := finsert uid (upvotes t)\<rparr> else t) (tips d)\<rparr>"

definition upvotes_remove :: "nat \<Rightarrow> nat \<Rightarrow> db \<Rightarrow> db" where
  "upvotes_remove tid uid d =
     d\<lparr>tips := map (\<lambda>t. if tip_id t = tid then t\<lparr>upvotes := upvotes t |-| {|uid|}\<rparr> else t) (tips d)\<rparr>"

definition downvotes_add :: "nat \<Rightarrow> nat \<Rightarrow> db \<Rightarrow> db" where
  "downvotes_add tid uid d =
     d\<lparr>tips := map (\<lambda>t. if tip_id t = tid then t\<lparr>downvotes := finsert uid (downvotes t)\<rparr> else t) (tips d)\<rparr>"

definition downvotes_remove :: "nat \<Rightarrow> nat \<Rightarrow> db \<Rightarrow> db" where
  "downvotes_remove tid uid d =
     d\<lparr>tips := map (\<lambda>t. if tip_id t = tid then t\<lparr>downvotes := downvotes t |-| {|uid|}\<rparr> else t) (tips d)\<rparr>"

subsection \<open>CustomUser\<close>

definition can_downvote :: "custom_user \<Rightarrow> bool" where
  "can_downvote self \<longleftrightarrow> reputation self \<ge> 15 \<or> is_superuser self"

definition can_delete_tips :: "custom_user \<Rightarrow> bool" where
  "can_delete_tips self \<longleftrightarrow> reputation self \<ge> 30 \<or> is_superuser self"

text \<open>\<open>self.tips.all()\<close>: the tips whose foreign key is this user.\<close>

definition tips_all :: "custom_user \<Rightarrow> db \<Rightarrow> tip list" where
  "tips_all self d = filter (\<lambda>t. author t = user_id self) (tips d)"

text \<open>
  \<open>update_reputation\<close>: the accumulator starts at 0, the loop body adds five times the
  upvote count and then subtracts twice the downvote count, and the clamped total is
  stored on \<open>self\<close>, which is saved.
\<close>

definition update_reputation :: "custom_user \<Rightarrow> db \<Rightarrow> db" where
  "update_reputation self d =
     (let reputation =
            fold (\<lambda>tip reputation.
                    (reputation + int (fcard (upvotes tip)) * 5) - int (fcard (downvotes tip)) * 2)
                 (tips_all self d) 0
      in save_user (self\<lparr>reputation := max reputation 0\<rparr>) d)"

subsection \<open>Tip\<close>

text \<open>
  \<open>Tip.save\<close> for a tip that has no row yet: the row is inserted under the next key
  of the table's key sequence, with both vote relations empty, and then the reputation of
  \<open>self.author\<close> is recomputed. \<open>self.author\<close> is the user object that the caller
  assigned.
\<close>

definition Tip_save :: "string \<Rightarrow> custom_user \<Rightarrow> nat \<Rightarrow> db \<Rightarrow> db" where
  "Tip_save text_content author_obj now d =
     (let self = \<lparr>tip_id = Suc (tip_seq d), content = text_content,
                  author = user_id author_obj, date = now, upvotes = {||}, downvotes = {||}\<rparr>;
          d1 = d\<lparr>tips := tips d @ [self], tip_seq := Suc (tip_seq d)\<rparr>
      in update_reputation author_obj d1)"

text \<open>
  \<open>Tip.delete\<close>: the author object is read first, the row is deleted (and with it the
  tip's rows of the two vote relations), and then the author's reputation is recomputed.
\<close>

definition Tip_delete :: "tip \<Rightarrow> custom_user \<Rightarrow> db \<Rightarrow> db" where
  "Tip_delete self author_obj d =
     (let d1 = d\<lparr>tips := filter (\<lambda>t. tip_id t \<noteq> tip_id self) (tips d)\<rparr>
      in update_reputation author_obj d1)"

section \<open>Requests and responses\<close>

text \<open>
  A request carries the key of the session's user (\<open>None\<close> for a visitor without a
  session), the POST data, the cookies, and the \<open>defaultName\<close> attribute that the
  middleware sets. \<open>request.user\<close> is the row of the session's user, read from the
  database; without such a row it is the anonymous user, \<open>None\<close> here.
\<close>

record request =
  session_user :: "nat option"
  POST :: "string \<rightharpoonup> string"
  COOKIES :: "string \<rightharpoonup> string"
  defaultName :: "string option"

definition request_user :: "request \<Rightarrow> db \<Rightarrow> custom_user option" where
  "request_user req d = (case session_user req of None \<Rightarrow> None | Some uid \<Rightarrow> get_user d uid)"

text \<open>
  What a view answers: a redirect to a named route, the redirect of \<open>login_required\<close>
  to the login page, a 403 with its message, the 404 of \<open>get_object_or_404\<close>, and the
  500 that an unhandled exception becomes (here only a tip whose author row is missing).
\<close>

datatype response_kind =
    Redirect string
  | RedirectToLogin string
  | HttpResponseForbidden string
  | Http404
  | ServerError

record cookie =
  cookie_value :: string
  max_age :: "nat option"

record response =
  kind :: response_kind
  cookies :: "string \<rightharpoonup> cookie"

definition respond :: "response_kind \<Rightarrow> response" where
  "respond k = \<lparr>kind = k, cookies = Map.empty\<rparr>"

definition set_cookie :: "string \<Rightarrow> string \<Rightarrow> nat \<Rightarrow> response \<Rightarrow> response" where
  "set_cookie key val age resp =
     resp\<lparr>cookies := (cookies resp)(key \<mapsto> \<lparr>cookie_value = val, max_age = Some age\<rparr>)\<rparr>"

section \<open>Views (views.py)\<close>

text \<open>
  \<open>HomePageView.post\<close>. The validation of \<open>TipForm\<close> belongs to the framework and is
  a parameter: it maps the POST data to the cleaned content, or to \<open>None\<close> when the
  form is not valid. The creation time is a parameter as well.
\<close>

definition HomePageView_post ::
  "((string \<rightharpoonup> string) \<Rightarrow> string option) \<Rightarrow> nat \<Rightarrow> request \<Rightarrow> db \<Rightarrow> response \<times> db" where
  "HomePageView_post TipForm now req d =
     (case request_user req d of
        None \<Rightarrow> (respond (Redirect ''home''), d)
      | Some user \<Rightarrow>
          (case TipForm (POST req) of
             None \<Rightarrow> (respond (Redirect ''home''), d)
           | Some c \<Rightarrow> (respond (Redirect ''home''), Tip_save c user now d)))"

definition upvote_tip :: "request \<Rightarrow> nat \<Rightarrow> db \<Rightarrow> response \<times> db" where
  "upvote_tip req tid d =
     (case request_user req d of
        None \<Rightarrow> (respond (RedirectToLogin ''/login''), d)
      | Some user \<Rightarrow>
          (case get_tip d tid of
             None \<Rightarrow> (respond Http404, d)
           | Some tip \<Rightarrow>
               (let d1 = (if user_id user |\<in>| downvotes_all d tid
                          then downvotes_remove tid (user_id user) d else d);
                    d2 = (if user_id user |\<in>| upvotes_all d1 tid
                          then upvotes_remove tid (user_id user) d1
                          else upvotes_add tid (user_id user) d1)
                in (case get_user d2 (author tip) of
                      None \<Rightarrow> (respond ServerError, d2)
                    | Some a \<Rightarrow> (respond (Redirect ''home''), update_reputation a d2)))))"

definition downvote_tip :: "request \<Rightarrow> nat \<Rightarrow> db \<Rightarrow> response \<times> db" where
  "downvote_tip req tid d =
     (case request_user req d of
        None \<Rightarrow> (respond (RedirectToLogin ''/login''), d)
      | Some user \<Rightarrow>
          (case get_tip d tid of
             None \<Rightarrow> (respond Http404, d)
           | Some tip \<Rightarrow>
               (case get_user d (author tip) of
                  None \<Rightarrow> (respond ServerError, d)
                | Some a \<Rightarrow>
                    if user_id user = user_id a \<or> can_downvote user then
                      (let d1 = (if user_id user |\<in>| upvotes_all d tid
                                 then upvotes_remove tid (user_id user) d else d);
                           d2 = (if user_id user |\<in>| downvotes_all d1 tid
                                 then downvotes_remove tid (user_id user) d1
                                 else downvotes_add tid (user_id user) d1)
                       in (respond (Redirect ''home''), update_reputation a d2))
                    else
                      (respond (HttpResponseForbidden
                         ''You don't have permission to downvote this tip.''), d))))"

definition delete_tip :: "request \<Rightarrow> nat \<Rightarrow> db \<Rightarrow> response \<times> db" where
  "delete_tip req tid d =
     (case request_user req d of
        None \<Rightarrow> (respond (RedirectToLogin ''/login''), d)
      | Some user \<Rightarrow>
          (case get_tip d tid of
             None \<Rightarrow> (respond Http404, d)
           | Some tip \<Rightarrow>
               (case get_user d (author tip) of
                  None \<Rightarrow> (respond ServerError, d)
                | Some a \<Rightarrow>
                    if user_id user = user_id a \<or> can_delete_tips user then
                      (respond (Redirect ''home''), Tip_delete tip a d)
                    else
                      (respond (HttpResponseForbidden
                         ''You don't have permission to delete this tip.''), d))))"

section \<open>Middleware (middleware.py)\<close>

text \<open>
  \<open>UsernameMiddleware.__call__\<close>. \<open>settings.NAMES_LIST\<close> is a parameter (\<open>None\<close>
  when the setting is absent, which raises \<open>AttributeError\<close>; the empty list raises
  \<open>IndexError\<close>), and so is the number that \<open>random.choice\<close> draws. The wrapped handler
  \<open>get_response\<close> takes the request and the state and returns a response and the state.
\<close>

definition UsernameMiddleware_call ::
  "(request \<Rightarrow> 's \<Rightarrow> response \<times> 's) \<Rightarrow> string list option \<Rightarrow> nat \<Rightarrow> request \<Rightarrow> 's \<Rightarrow> response \<times> 's" where
  "UsernameMiddleware_call get_response NAMES_LIST rnd req s =
     (let name = COOKIES req ''defaultName'' in
      if name = None \<or> name = Some [] then
        (let username =
               (case NAMES_LIST of
                  None \<Rightarrow> ''defaultName''
                | Some names \<Rightarrow>
                    if names = [] then ''defaultName'' else names ! (rnd mod length names));
             (resp, s') = get_response (req\<lparr>defaultName := Some username\<rparr>) s
         in (set_cookie ''defaultName'' username 42 resp, s'))
      else get_response (req\<lparr>defaultName := name\<rparr>) s)"

section \<open>Sequences of operations\<close>

text \<open>
  The requests that change votes, and all requests that change the database. Each request
  of a sequence is served to completion on the state that the one before it left.
\<close>

datatype vote_op = Upvote request nat | Downvote request nat

fun apply_vote :: "vote_op \<Rightarrow> db \<Rightarrow> db" where
  "apply_vote (Upvote req tid) d = snd (upvote_tip req tid d)"
| "apply_vote (Downvote req tid) d = snd (downvote_tip req tid d)"

definition run_votes :: "vote_op list \<Rightarrow> db \<Rightarrow> db" where
  "run_votes ops d = fold apply_vote ops d"

datatype action =
    Post "(string \<rightharpoonup> string) \<Rightarrow> string option" nat request
  | Vote vote_op
  | Delete request nat

fun apply_action :: "action \<Rightarrow> db \<Rightarrow> db" where
  "apply_action (Post TipForm now req) d = snd (HomePageView_post TipForm now req d)"
| "apply_action (Vote v) d = apply_vote v d"
| "apply_action (Delete req tid) d = snd (delete_tip req tid d)"

definition run_actions :: "action list \<Rightarrow> db \<Rightarrow> db" where
  "run_actions acts d = fold apply_action acts d"

section \<open>Notation\<close>

text \<open>
  The vote total of a user: over the tips that the user wrote, five times the upvote
  count minus twice the downvote count, before any clamping. And two tip tables that
  have the same keys and authors row by row and the same rows except under one key.
\<close>

abbreviation vote_total :: "nat \<Rightarrow> db \<Rightarrow> int" where
  "vote_total uid d \<equiv>
     (\<Sum>t\<leftarrow>filter (\<lambda>t. author t = uid) (tips d).
        5 * int (fcard (upvotes t)) - 2 * int (fcard (downvotes t)))"

abbreviation rows_differ_at :: "nat \<Rightarrow> tip list \<Rightarrow> tip list \<Rightarrow> bool" where
  "rows_differ_at tid xs ys \<equiv>
     list_all2 (\<lambda>x y. tip_id y = tip_id x \<and> author y = author x \<and> (tip_id x \<noteq> tid \<longrightarrow> y = x)) xs ys"

section \<open>A small database used in the concrete checks\<close>

text \<open>
  Users 1 to 4 are ordinary users, user 5 is a superuser. User 1 wrote tips 1, 2 and 3,
  with (upvotes, downvotes) of (2,0), (1,1) and (0,3); user 2 wrote tip 4.
\<close>

definition sample_user :: "nat \<Rightarrow> int \<Rightarrow> bool \<Rightarrow> custom_user" where
  "sample_user k r s = \<lparr>user_id = k, reputation = r, is_superuser = s\<rparr>"

definition sample_tip :: "nat \<Rightarrow> nat \<Rightarrow> nat fset \<Rightarrow> nat fset \<Rightarrow> tip" where
  "sample_tip k a ups downs =
     \<lparr>tip_id = k, content = ''tip'', author = a, date = 0, upvotes = ups, downvotes = downs\<rparr>"

definition sample_db :: db where
  "sample_db =
     \<lparr>users = [sample_user 1 7 False, sample_user 2 5 False, sample_user 3 0 False,
               sample_user 4 0 False, sample_user 5 0 True],
      tips = [sample_tip 1 1 {|2, 3|} {||}, sample_tip 2 1 {|2|} {|3|},
              sample_tip 3 1 {||} {|2, 3, 4|}, sample_tip 4 2 {|1|} {||}],
      tip_seq = 4\<rparr>"

definition sample_request :: "nat option \<Rightarrow> request" where
  "sample_request who =
     \<lparr>session_user = who, POST = Map.empty, COOKIES = Map.empty, defaultName = None\<rparr>"

definition sample_votes :: "vote_op list" where
  "sample_votes =
     [Upvote (sample_request (Some 3)) 1, Downvote (sample_request (Some 5)) 4,
      Downvote (sample_request (Some 3)) 4, Upvote (sample_request (Some 2)) 3,
      Downvote (sample_request (Some 1)) 1]"

text \<open>
  A database for the permission thresholds: user 1 wrote tips 1 and 2 and has the
  reputation 3 that their votes give, users 2 to 5 have reputation 14, 15, 29 and 30, and
  user 6 is a superuser.
\<close>

definition gate_db :: db where
  "gate_db =
     \<lparr>users = [sample_user 1 3 False, sample_user 2 14 False, sample_user 3 15 False,
               sample_user 4 29 False, sample_user 5 30 False, sample_user 6 0 True],
      tips = [sample_tip 1 1 {||} {||}, sample_tip 2 1 {|2|} {|3|}],
      tip_seq = 2\<rparr>"

text \<open>
  A form that accepts any non-empty content, a sequence of all four kinds of operation
  and the request that posts a tip, and a handler that the middleware can wrap. In
  \<open>clamp_db\<close> user 1 wrote a tip with no upvote and twenty downvotes and a tip with ten
  upvotes, and has the reputation 10 that these give. In \<open>edge_db\<close> user 1 wrote one
  tip with one upvote and two downvotes and has reputation 1; user 5 is a superuser.
\<close>

definition sample_form :: "(string \<rightharpoonup> string) \<Rightarrow> string option" where
  "sample_form post = (case post ''content'' of None \<Rightarrow> None | Some c \<Rightarrow> if c = [] then None else Some c)"

definition sample_actions :: "action list" where
  "sample_actions =
     [Post sample_form 7 ((sample_request (Some 3))\<lparr>POST := [''content'' \<mapsto> ''a new tip'']\<rparr>),
      Vote (Downvote (sample_request (Some 5)) 4),
      Vote (Upvote (sample_request (Some 2)) 5),
      Delete (sample_request (Some 1)) 1]"

definition clamp_db :: db where
  "clamp_db =
     \<lparr>users = sample_user 1 10 False # map (\<lambda>k. sample_user k 0 False) [2..<22],
      tips = [sample_tip 1 1 {||} (fset_of_list [2..<22]),
              sample_tip 2 1 (fset_of_list [2..<12]) {||}],
      tip_seq = 2\<rparr>"

definition sample_post :: request where
  "sample_post = (sample_request (Some 3))\<lparr>POST := [''content'' \<mapsto> ''a new tip'']\<rparr>"

definition edge_db :: db where
  "edge_db =
     \<lparr>users = [sample_user 1 1 False, sample_user 2 0 False, sample_user 3 0 False,
               sample_user 4 0 False, sample_user 5 0 True],
      tips = [sample_tip 1 1 {|2|} {|3, 4|}],
      tip_seq = 1\<rparr>"

definition sample_get_response :: "request \<Rightarrow> unit \<Rightarrow> response \<times> unit" where
  "sample_get_response req s = (respond (Redirect ''home''), s)"

text \<open>
  Two users, an author and a superuser, and the author's one tip: without votes, and
  after the superuser has downvoted it.
\<close>

definition fresh_db :: db where
  "fresh_db = \<lparr>users = [sample_user 1 0 False, sample_user 5 0 True],
               tips = [sample_tip 1 1 {||} {||}], tip_seq = 1\<rparr>"

definition self_vote_db :: db where
  "self_vote_db = \<lparr>users = [sample_user 1 0 False, sample_user 5 0 True],
                   tips = [sample_tip 1 1 {||} {|5|}], tip_seq = 1\<rparr>"

section \<open>Facts about the mapper\<close>

lemma find_map_replace:
  "find (\<lambda>u. user_id u = user_id s) (map (\<lambda>u. if user_id u = user_id s then s else u) xs)
     = (if list_ex (\<lambda>u. user_id u = user_id s) xs then Some s else None)"
  by (induction xs) auto

lemma find_append_new:
  "\<not> list_ex (\<lambda>u. user_id u = k) xs \<Longrightarrow> user_id s = k \<Longrightarrow>
     find (\<lambda>u. user_id u = k) (xs @ [s]) = Some s"
  by (induction xs) auto

lemma get_user_save_user: "get_user (save_user self d) (user_id self) = Some self"
  by (simp add: get_user_def save_user_def find_map_replace find_append_new)

lemma tips_save_user: "tips (save_user self d) = tips d"
  by (simp add: save_user_def)

lemma fold_score:
  "fold (\<lambda>tip r. (r + int (fcard (upvotes tip)) * 5) - int (fcard (downvotes tip)) * 2) ts acc
     = acc + (\<Sum>t\<leftarrow>ts. 5 * int (fcard (upvotes t)) - 2 * int (fcard (downvotes t)))"
  by (induction ts arbitrary: acc) (simp_all add: algebra_simps)

lemma update_reputation_eq:
  "update_reputation self d =
     save_user (self\<lparr>reputation :=
        max 0 (\<Sum>t\<leftarrow>tips_all self d. 5 * int (fcard (upvotes t)) - 2 * int (fcard (downvotes t)))\<rparr>) d"
  by (simp add: update_reputation_def fold_score max.commute)

lemma tips_update_reputation: "tips (update_reputation self d) = tips d"
  by (simp add: update_reputation_eq tips_save_user)

lemma get_user_update_reputation:
  "get_user (update_reputation self d) (user_id self) =
     Some (self\<lparr>reputation :=
        max 0 (\<Sum>t\<leftarrow>tips_all self d. 5 * int (fcard (upvotes t)) - 2 * int (fcard (downvotes t)))\<rparr>)"
  using get_user_save_user [of "self\<lparr>reputation :=
        max 0 (\<Sum>t\<leftarrow>tips_all self d. 5 * int (fcard (upvotes t)) - 2 * int (fcard (downvotes t)))\<rparr>" d]
  by (simp add: update_reputation_eq)

section \<open>Facts about the vote relations\<close>

lemma find_map_tip:
  "(\<And>t. tip_id (f t) = tip_id t) \<Longrightarrow>
     find (\<lambda>t. tip_id t = k) (map f xs) = map_option f (find (\<lambda>t. tip_id t = k) xs)"
  by (induction xs) auto

lemma get_tip_id: "get_tip d k = Some t \<Longrightarrow> tip_id t = k"
  by (auto simp: get_tip_def find_Some_iff)

lemma get_tip_self: "get_tip d k = Some t \<Longrightarrow> get_tip d (tip_id t) = Some t"
  by (auto simp: get_tip_def find_Some_iff)

lemma get_tip_mem: "get_tip d k = Some t \<Longrightarrow> t \<in> set (tips d)"
  by (auto simp: get_tip_def find_Some_iff)

lemma get_user_id: "get_user d k = Some u \<Longrightarrow> user_id u = k"
  by (auto simp: get_user_def find_Some_iff)

lemma get_user_mem: "get_user d k = Some u \<Longrightarrow> u \<in> set (users d)"
  by (auto simp: get_user_def find_Some_iff)

lemma users_m2m:
  "users (upvotes_add tid uid d) = users d"
  "users (upvotes_remove tid uid d) = users d"
  "users (downvotes_add tid uid d) = users d"
  "users (downvotes_remove tid uid d) = users d"
  by (simp_all add: upvotes_add_def upvotes_remove_def downvotes_add_def downvotes_remove_def)

lemma get_user_m2m:
  "get_user (upvotes_add tid uid d) = get_user d"
  "get_user (upvotes_remove tid uid d) = get_user d"
  "get_user (downvotes_add tid uid d) = get_user d"
  "get_user (downvotes_remove tid uid d) = get_user d"
  by (simp_all add: get_user_def users_m2m fun_eq_iff)

lemma get_tip_upvotes_add:
  "get_tip (upvotes_add tid uid d) k =
     map_option (\<lambda>t. if tip_id t = tid then t\<lparr>upvotes := finsert uid (upvotes t)\<rparr> else t) (get_tip d k)"
  by (simp add: get_tip_def upvotes_add_def find_map_tip)

lemma get_tip_upvotes_remove:
  "get_tip (upvotes_remove tid uid d) k =
     map_option (\<lambda>t. if tip_id t = tid then t\<lparr>upvotes := upvotes t |-| {|uid|}\<rparr> else t) (get_tip d k)"
  by (simp add: get_tip_def upvotes_remove_def find_map_tip)

lemma get_tip_downvotes_add:
  "get_tip (downvotes_add tid uid d) k =
     map_option (\<lambda>t. if tip_id t = tid then t\<lparr>downvotes := finsert uid (downvotes t)\<rparr> else t) (get_tip d k)"
  by (simp add: get_tip_def downvotes_add_def find_map_tip)

lemma get_tip_downvotes_remove:
  "get_tip (downvotes_remove tid uid d) k =
     map_option (\<lambda>t. if tip_id t = tid then t\<lparr>downvotes := downvotes t |-| {|uid|}\<rparr> else t) (get_tip d k)"
  by (simp add: get_tip_def downvotes_remove_def find_map_tip)

lemma get_tip_update_reputation: "get_tip (update_reputation a d) = get_tip d"
  by (simp add: get_tip_def tips_update_reputation fun_eq_iff)

lemma upvotes_all_update_reputation: "upvotes_all (update_reputation a d) = upvotes_all d"
  by (simp add: upvotes_all_def get_tip_update_reputation fun_eq_iff)

lemma downvotes_all_update_reputation: "downvotes_all (update_reputation a d) = downvotes_all d"
  by (simp add: downvotes_all_def get_tip_update_reputation fun_eq_iff)

text \<open>The vote relations of tip \<open>k\<close> after each write.\<close>

lemma upvotes_all_writes:
  "upvotes_all (upvotes_add tid uid d) k =
     (if k = tid \<and> get_tip d tid \<noteq> None then finsert uid (upvotes_all d k) else upvotes_all d k)"
  "upvotes_all (upvotes_remove tid uid d) k =
     (if k = tid then upvotes_all d k |-| {|uid|} else upvotes_all d k)"
  "upvotes_all (downvotes_add tid uid d) k = upvotes_all d k"
  "upvotes_all (downvotes_remove tid uid d) k = upvotes_all d k"
proof -
  show "upvotes_all (upvotes_add tid uid d) k =
     (if k = tid \<and> get_tip d tid \<noteq> None then finsert uid (upvotes_all d k) else upvotes_all d k)"
  proof (cases "get_tip d k")
    case None
    then show ?thesis by (auto simp: upvotes_all_def get_tip_upvotes_add)
  next
    case (Some t)
    with get_tip_id [OF Some] show ?thesis
      by (auto simp: upvotes_all_def get_tip_upvotes_add)
  qed
  show "upvotes_all (upvotes_remove tid uid d) k =
     (if k = tid then upvotes_all d k |-| {|uid|} else upvotes_all d k)"
  proof (cases "get_tip d k")
    case None
    then show ?thesis by (auto simp: upvotes_all_def get_tip_upvotes_remove)
  next
    case (Some t)
    with get_tip_id [OF Some] show ?thesis
      by (auto simp: upvotes_all_def get_tip_upvotes_remove)
  qed
  show "upvotes_all (downvotes_add tid uid d) k = upvotes_all d k"
    by (cases "get_tip d k") (auto simp: upvotes_all_def get_tip_downvotes_add)
  show "upvotes_all (downvotes_remove tid uid d) k = upvotes_all d k"
    by (cases "get_tip d k") (auto simp: upvotes_all_def get_tip_downvotes_remove)
qed

lemma downvotes_all_writes:
  "downvotes_all (downvotes_add tid uid d) k =
     (if k = tid \<and> get_tip d tid \<noteq> None then finsert uid (downvotes_all d k) else downvotes_all d k)"
  "downvotes_all (downvotes_remove tid uid d) k =
     (if k = tid then downvotes_all d k |-| {|uid|} else downvotes_all d k)"
  "downvotes_all (upvotes_add tid uid d) k = downvotes_all d k"
  "downvotes_all (upvotes_remove tid uid d) k = downvotes_all d k"
proof -
  show "downvotes_all (downvotes_add tid uid d) k =
     (if k = tid \<and> get_tip d tid \<noteq> None then finsert uid (downvotes_all d k) else downvotes_all d k)"
  proof (cases "get_tip d k")
    case None
    then show ?thesis by (auto simp: downvotes_all_def get_tip_downvotes_add)
  next
    case (Some t)
    with get_tip_id [OF Some] show ?thesis
      by (auto simp: downvotes_all_def get_tip_downvotes_add)
  qed
  show "downvotes_all (downvotes_remove tid uid d) k =
     (if k = tid then downvotes_all d k |-| {|uid|} else downvotes_all d k)"
  proof (cases "get_tip d k")
    case None
    then show ?thesis by (auto simp: downvotes_all_def get_tip_downvotes_remove)
  next
    case (Some t)
    with get_tip_id [OF Some] show ?thesis
      by (auto simp: downvotes_all_def get_tip_downvotes_remove)
  qed
  show "downvotes_all (upvotes_add tid uid d) k = downvotes_all d k"
    by (cases "get_tip d k") (auto simp: downvotes_all_def get_tip_upvotes_add)
  show "downvotes_all (upvotes_remove tid uid d) k = downvotes_all d k"
    by (cases "get_tip d k") (auto simp: downvotes_all_def get_tip_upvotes_remove)
qed

lemma get_tip_exists_writes:
  "get_tip (upvotes_add tid uid d) k = None \<longleftrightarrow> get_tip d k = None"
  "get_tip (upvotes_remove tid uid d) k = None \<longleftrightarrow> get_tip d k = None"
  "get_tip (downvotes_add tid uid d) k = None \<longleftrightarrow> get_tip d k = None"
  "get_tip (downvotes_remove tid uid d) k = None \<longleftrightarrow> get_tip d k = None"
  by (simp_all add: get_tip_upvotes_add get_tip_upvotes_remove
        get_tip_downvotes_add get_tip_downvotes_remove)

text \<open>The effect of the two vote views on the vote relations.\<close>

lemma upvote_tip_votes:
  assumes "request_user req d = Some u" and "get_tip d tid = Some t"
  shows "upvotes_all (snd (upvote_tip req tid d)) k =
           (if k = tid then
              (if user_id u |\<in>| upvotes_all d tid then upvotes_all d tid |-| {|user_id u|}
               else finsert (user_id u) (upvotes_all d tid))
            else upvotes_all d k)"
    and "downvotes_all (snd (upvote_tip req tid d)) k =
           (if k = tid then downvotes_all d tid |-| {|user_id u|} else downvotes_all d k)"
  using assms
  by (simp_all add: upvote_tip_def Let_def upvotes_all_writes downvotes_all_writes get_user_m2m
        get_tip_exists_writes upvotes_all_update_reputation downvotes_all_update_reputation
        split: option.splits)

lemma upvote_tip_unchanged:
  "request_user req d = None \<or> get_tip d tid = None \<Longrightarrow> snd (upvote_tip req tid d) = d"
  by (auto simp: upvote_tip_def split: option.splits)

lemma downvote_tip_votes:
  assumes "request_user req d = Some u" and "get_tip d tid = Some t"
    and "get_user d (author t) = Some a" and "user_id u = user_id a \<or> can_downvote u"
  shows "downvotes_all (snd (downvote_tip req tid d)) k =
           (if k = tid then
              (if user_id u |\<in>| downvotes_all d tid then downvotes_all d tid |-| {|user_id u|}
               else finsert (user_id u) (downvotes_all d tid))
            else downvotes_all d k)"
    and "upvotes_all (snd (downvote_tip req tid d)) k =
           (if k = tid then upvotes_all d tid |-| {|user_id u|} else upvotes_all d k)"
  using assms
  by (simp_all add: downvote_tip_def Let_def upvotes_all_writes downvotes_all_writes get_user_m2m
        get_tip_exists_writes upvotes_all_update_reputation downvotes_all_update_reputation
        split: option.splits)

lemma downvote_tip_unchanged:
  "request_user req d = None \<or> get_tip d tid = None
     \<or> (\<exists>t. get_tip d tid = Some t \<and> get_user d (author t) = None)
     \<or> (\<exists>u t a. request_user req d = Some u \<and> get_tip d tid = Some t
            \<and> get_user d (author t) = Some a \<and> user_id u \<noteq> user_id a \<and> \<not> can_downvote u)
   \<Longrightarrow> snd (downvote_tip req tid d) = d"
  by (auto simp: downvote_tip_def split: option.splits)

lemma upvote_tip_disjoint:
  assumes "\<forall>k. upvotes_all d k |\<inter>| downvotes_all d k = {||}"
  shows "upvotes_all (snd (upvote_tip req tid d)) k |\<inter>| downvotes_all (snd (upvote_tip req tid d)) k = {||}"
proof (cases "request_user req d")
  case None
  then show ?thesis using assms by (simp add: upvote_tip_unchanged)
next
  case (Some u)
  show ?thesis
  proof (cases "get_tip d tid")
    case None
    then show ?thesis using assms by (simp add: upvote_tip_unchanged)
  next
    case (Some t)
    from assms have "upvotes_all d k |\<inter>| downvotes_all d k = {||}"
      and "upvotes_all d tid |\<inter>| downvotes_all d tid = {||}" by blast+
    then show ?thesis
      unfolding upvote_tip_votes [OF \<open>request_user req d = Some u\<close> Some]
      by auto
  qed
qed

lemma downvote_tip_disjoint:
  assumes "\<forall>k. upvotes_all d k |\<inter>| downvotes_all d k = {||}"
  shows "upvotes_all (snd (downvote_tip req tid d)) k |\<inter>| downvotes_all (snd (downvote_tip req tid d)) k = {||}"
proof -
  consider (same) "snd (downvote_tip req tid d) = d"
    | (voted) u t a where "request_user req d = Some u" "get_tip d tid = Some t"
        "get_user d (author t) = Some a" "user_id u = user_id a \<or> can_downvote u"
    using downvote_tip_unchanged [of req d tid]
    by (cases "request_user req d"; cases "get_tip d tid") (auto, metis option.exhaust)
  then show ?thesis
  proof cases
    case same
    then show ?thesis using assms by simp
  next
    case voted
    from assms have "upvotes_all d k |\<inter>| downvotes_all d k = {||}"
      and "upvotes_all d tid |\<inter>| downvotes_all d tid = {||}" by blast+
    then show ?thesis
      unfolding downvote_tip_votes [OF voted]
      by auto
  qed
qed

lemma tip_ids_writes:
  "map tip_id (tips (upvotes_add tid uid d)) = map tip_id (tips d)"
  "map tip_id (tips (upvotes_remove tid uid d)) = map tip_id (tips d)"
  "map tip_id (tips (downvotes_add tid uid d)) = map tip_id (tips d)"
  "map tip_id (tips (downvotes_remove tid uid d)) = map tip_id (tips d)"
  by (simp_all add: upvotes_add_def upvotes_remove_def downvotes_add_def downvotes_remove_def
        comp_def if_distrib cong: if_cong)

lemma tip_ids_upvote_tip: "map tip_id (tips (snd (upvote_tip req tid d))) = map tip_id (tips d)"
  by (simp add: upvote_tip_def Let_def tip_ids_writes tips_update_reputation split: option.splits)

lemma tip_ids_downvote_tip: "map tip_id (tips (snd (downvote_tip req tid d))) = map tip_id (tips d)"
  by (simp add: downvote_tip_def Let_def tip_ids_writes tips_update_reputation split: option.splits)

lemma tip_ids_apply_vote: "map tip_id (tips (apply_vote v d)) = map tip_id (tips d)"
  by (cases v) (simp_all add: tip_ids_upvote_tip tip_ids_downvote_tip)

lemma tip_ids_run_votes: "map tip_id (tips (run_votes vs d)) = map tip_id (tips d)"
  unfolding run_votes_def by (induction vs arbitrary: d) (simp_all add: tip_ids_apply_vote)

lemma find_distinct_row:
  "distinct (map tip_id xs) \<Longrightarrow> t \<in> set xs \<Longrightarrow> find (\<lambda>x. tip_id x = tip_id t) xs = Some t"
  by (induction xs) (auto simp: image_iff)

lemma get_tip_row:
  "distinct (map tip_id (tips d)) \<Longrightarrow> t \<in> set (tips d) \<Longrightarrow> get_tip d (tip_id t) = Some t"
  by (simp add: get_tip_def find_distinct_row)

lemma rows_disjoint_queries:
  assumes "\<forall>t\<in>set (tips d). upvotes t |\<inter>| downvotes t = {||}"
  shows "upvotes_all d k |\<inter>| downvotes_all d k = {||}"
proof (cases "get_tip d k")
  case None
  then show ?thesis by (simp add: upvotes_all_def)
next
  case (Some t)
  with assms get_tip_mem [OF Some] show ?thesis
    by (simp add: upvotes_all_def downvotes_all_def)
qed

lemma apply_vote_disjoint:
  "\<forall>k. upvotes_all d k |\<inter>| downvotes_all d k = {||} \<Longrightarrow>
     \<forall>k. upvotes_all (apply_vote v d) k |\<inter>| downvotes_all (apply_vote v d) k = {||}"
  by (cases v) (simp_all add: upvote_tip_disjoint downvote_tip_disjoint)

lemma run_votes_disjoint:
  "\<forall>k. upvotes_all d k |\<inter>| downvotes_all d k = {||} \<Longrightarrow>
     \<forall>k. upvotes_all (run_votes vs d) k |\<inter>| downvotes_all (run_votes vs d) k = {||}"
  unfolding run_votes_def
proof (induction vs arbitrary: d)
  case Nil
  then show ?case by simp
next
  case (Cons v vs)
  from Cons.IH [OF apply_vote_disjoint [OF Cons.prems]] show ?case by simp
qed

lemma find_user_map_other:
  "k \<noteq> user_id s \<Longrightarrow>
     find (\<lambda>u. user_id u = k) (map (\<lambda>u. if user_id u = user_id s then s else u) xs)
       = find (\<lambda>u. user_id u = k) xs"
  by (induction xs) auto

lemma find_user_append_other:
  "k \<noteq> user_id s \<Longrightarrow> find (\<lambda>u. user_id u = k) (xs @ [s]) = find (\<lambda>u. user_id u = k) xs"
  by (induction xs) auto

lemma get_user_save_user_iff:
  "get_user (save_user s d) k = (if k = user_id s then Some s else get_user d k)"
  using get_user_save_user [of s d]
  by (auto simp: get_user_def save_user_def find_user_map_other find_user_append_other)

lemma get_user_update_reputation_iff:
  "get_user (update_reputation a d) k =
     (if k = user_id a
      then Some (a\<lparr>reputation :=
             max 0 (\<Sum>t\<leftarrow>tips_all a d. 5 * int (fcard (upvotes t)) - 2 * int (fcard (downvotes t)))\<rparr>)
      else get_user d k)"
  by (simp add: update_reputation_eq get_user_save_user_iff)

text \<open>The tip looked up by a vote view is still there afterwards, with the same author.\<close>

lemma get_tip_author_writes:
  assumes "get_tip d k = Some t"
  shows "\<exists>t'. get_tip (upvotes_add tid uid d) k = Some t' \<and> author t' = author t"
    and "\<exists>t'. get_tip (upvotes_remove tid uid d) k = Some t' \<and> author t' = author t"
    and "\<exists>t'. get_tip (downvotes_add tid uid d) k = Some t' \<and> author t' = author t"
    and "\<exists>t'. get_tip (downvotes_remove tid uid d) k = Some t' \<and> author t' = author t"
  using assms
  by (simp_all add: get_tip_upvotes_add get_tip_upvotes_remove get_tip_downvotes_add
        get_tip_downvotes_remove)

lemma get_tip_upvote_tip:
  assumes "get_tip d k = Some t"
  shows "\<exists>t'. get_tip (snd (upvote_tip req tid d)) k = Some t' \<and> author t' = author t"
  using assms
  by (simp add: upvote_tip_def Let_def get_tip_update_reputation get_tip_upvotes_add
        get_tip_upvotes_remove get_tip_downvotes_add get_tip_downvotes_remove
        split: option.splits)

text \<open>The user rows after an upvote: only the row of the tip's author is written.\<close>

lemma get_user_upvote_tip:
  "\<exists>r. get_user (snd (upvote_tip req tid d)) k = get_user d k
     \<or> (\<exists>t a. get_tip d tid = Some t \<and> get_user d (author t) = Some a \<and> k = author t
            \<and> get_user (snd (upvote_tip req tid d)) k = Some (a\<lparr>reputation := r\<rparr>))"
proof (cases "request_user req d")
  case None
  then show ?thesis by (simp add: upvote_tip_unchanged)
next
  case u: (Some u)
  show ?thesis
  proof (cases "get_tip d tid")
    case None
    then show ?thesis by (simp add: upvote_tip_unchanged)
  next
    case t: (Some t)
    show ?thesis
    proof (cases "get_user d (author t)")
      case None
      with u t show ?thesis
        by (simp add: upvote_tip_def Let_def get_user_m2m)
    next
      case a: (Some a)
      from get_user_id [OF a] have ida: "user_id a = author t" .
      with u t a show ?thesis
        by (auto simp: upvote_tip_def Let_def get_user_m2m get_user_update_reputation_iff)
    qed
  qed
qed

lemma request_user_upvote_tip:
  assumes "request_user req d = Some u"
  shows "\<exists>u'. request_user req (snd (upvote_tip req tid d)) = Some u'
           \<and> user_id u' = user_id u \<and> is_superuser u' = is_superuser u
           \<and> ((\<forall>t. get_tip d tid = Some t \<longrightarrow> user_id u \<noteq> author t) \<longrightarrow> u' = u)"
proof -
  from assms obtain uid where s: "session_user req = Some uid" and g: "get_user d uid = Some u"
    by (auto simp: request_user_def split: option.splits)
  from get_user_id [OF g] have uid: "user_id u = uid" .
  from get_user_upvote_tip [of req tid d uid] g uid show ?thesis
    by (auto simp: request_user_def s)
qed

section \<open>Facts about the user table\<close>

lemma save_user_nonneg:
  assumes "\<forall>u\<in>set (users d). 0 \<le> reputation u" and "0 \<le> reputation s"
  shows "\<forall>u\<in>set (users (save_user s d)). 0 \<le> reputation u"
  using assms by (auto simp: save_user_def)

lemma update_reputation_nonneg:
  assumes "\<forall>u\<in>set (users d). 0 \<le> reputation u"
  shows "\<forall>u\<in>set (users (update_reputation a d)). 0 \<le> reputation u"
  unfolding update_reputation_eq
  by (rule save_user_nonneg [OF assms]) simp

text \<open>
  Every view leaves the user table as it was, or as \<open>update_reputation\<close> writes it on a
  state with the same user table.
\<close>

lemma upvote_tip_users:
  "\<exists>d2. users d2 = users d
     \<and> (snd (upvote_tip req tid d) = d2 \<or> (\<exists>a. snd (upvote_tip req tid d) = update_reputation a d2))"
proof (cases "request_user req d")
  case None
  then have "snd (upvote_tip req tid d) = d" by (simp add: upvote_tip_unchanged)
  then show ?thesis by blast
next
  case u: (Some u)
  show ?thesis
  proof (cases "get_tip d tid")
    case None
    then have "snd (upvote_tip req tid d) = d" by (simp add: upvote_tip_unchanged)
    then show ?thesis by blast
  next
    case t: (Some t)
    define d2 where "d2 =
      (let d1 = (if user_id u |\<in>| downvotes_all d tid
                 then downvotes_remove tid (user_id u) d else d)
       in if user_id u |\<in>| upvotes_all d1 tid
          then upvotes_remove tid (user_id u) d1 else upvotes_add tid (user_id u) d1)"
    have us: "users d2 = users d" by (simp add: d2_def Let_def users_m2m)
    have "snd (upvote_tip req tid d) =
        (case get_user d2 (author t) of None \<Rightarrow> d2 | Some a \<Rightarrow> update_reputation a d2)"
      using u t by (simp add: upvote_tip_def d2_def Let_def split: option.splits)
    then have "snd (upvote_tip req tid d) = d2 \<or> (\<exists>a. snd (upvote_tip req tid d) = update_reputation a d2)"
      by (cases "get_user d2 (author t)") auto
    with us show ?thesis by blast
  qed
qed

lemma downvote_tip_users:
  "\<exists>d2. users d2 = users d
     \<and> (snd (downvote_tip req tid d) = d2 \<or> (\<exists>a. snd (downvote_tip req tid d) = update_reputation a d2))"
proof -
  consider (same) "snd (downvote_tip req tid d) = d"
    | (voted) u t a where "request_user req d = Some u" "get_tip d tid = Some t"
        "get_user d (author t) = Some a" "user_id u = user_id a \<or> can_downvote u"
    using downvote_tip_unchanged [of req d tid]
    by (cases "request_user req d"; cases "get_tip d tid") (auto, metis option.exhaust)
  then show ?thesis
  proof cases
    case same
    then show ?thesis by blast
  next
    case voted
    define d2 where "d2 =
      (let d1 = (if user_id u |\<in>| upvotes_all d tid
                 then upvotes_remove tid (user_id u) d else d)
       in if user_id u |\<in>| downvotes_all d1 tid
          then downvotes_remove tid (user_id u) d1 else downvotes_add tid (user_id u) d1)"
    have us: "users d2 = users d" by (simp add: d2_def Let_def users_m2m)
    have "snd (downvote_tip req tid d) = update_reputation a d2"
      using voted by (simp add: downvote_tip_def d2_def Let_def)
    with us show ?thesis by blast
  qed
qed

lemma delete_tip_users:
  "\<exists>d2. users d2 = users d
     \<and> (snd (delete_tip req tid d) = d2 \<or> (\<exists>a. snd (delete_tip req tid d) = update_reputation a d2))"
proof -
  have "snd (delete_tip req tid d) = d
      \<or> (\<exists>a ts. snd (delete_tip req tid d) = update_reputation a (d\<lparr>tips := ts\<rparr>))"
  proof (cases "request_user req d")
    case None
    then show ?thesis by (simp add: delete_tip_def)
  next
    case u: (Some u)
    show ?thesis
    proof (cases "get_tip d tid")
      case None
      with u show ?thesis by (simp add: delete_tip_def)
    next
      case t: (Some t)
      show ?thesis
      proof (cases "get_user d (author t)")
        case None
        with u t show ?thesis by (simp add: delete_tip_def)
      next
        case a: (Some a)
        show ?thesis
        proof (cases "user_id u = user_id a \<or> can_delete_tips u")
          case True
          with u t a have "snd (delete_tip req tid d)
              = update_reputation a (d\<lparr>tips := filter (\<lambda>x. tip_id x \<noteq> tip_id t) (tips d)\<rparr>)"
            by (simp add: delete_tip_def Tip_delete_def)
          then show ?thesis by blast
        next
          case False
          with u t a show ?thesis by (simp add: delete_tip_def)
        qed
      qed
    qed
  qed
  then show ?thesis
  proof
    assume "snd (delete_tip req tid d) = d"
    then show ?thesis by blast
  next
    assume "\<exists>a ts. snd (delete_tip req tid d) = update_reputation a (d\<lparr>tips := ts\<rparr>)"
    then obtain a ts where "snd (delete_tip req tid d) = update_reputation a (d\<lparr>tips := ts\<rparr>)"
      by blast
    moreover have "users (d\<lparr>tips := ts\<rparr>) = users d" by simp
    ultimately show ?thesis by blast
  qed
qed

lemma HomePageView_post_users:
  "\<exists>d2. users d2 = users d
     \<and> (snd (HomePageView_post form now req d) = d2
          \<or> (\<exists>a. snd (HomePageView_post form now req d) = update_reputation a d2))"
proof (cases "request_user req d")
  case None
  then have "snd (HomePageView_post form now req d) = d" by (simp add: HomePageView_post_def)
  then show ?thesis by blast
next
  case u: (Some u)
  show ?thesis
  proof (cases "form (POST req)")
    case None
    with u have "snd (HomePageView_post form now req d) = d" by (simp add: HomePageView_post_def)
    then show ?thesis by blast
  next
    case (Some c)
    define d1 where "d1 =
      d\<lparr>tips := tips d @ [\<lparr>tip_id = Suc (tip_seq d), content = c, author = user_id u,
                              date = now, upvotes = {||}, downvotes = {||}\<rparr>],
        tip_seq := Suc (tip_seq d)\<rparr>"
    have "users d1 = users d" by (simp add: d1_def)
    moreover from u Some have "snd (HomePageView_post form now req d) = update_reputation u d1"
      by (simp add: HomePageView_post_def Tip_save_def Let_def d1_def)
    ultimately show ?thesis by blast
  qed
qed

lemma users_step_nonneg:
  assumes "\<forall>u\<in>set (users d). 0 \<le> reputation u"
    and "\<exists>d2. users d2 = users d \<and> (d' = d2 \<or> (\<exists>a. d' = update_reputation a d2))"
  shows "\<forall>u\<in>set (users d'). 0 \<le> reputation u"
proof -
  from assms(2) obtain d2 where d2: "users d2 = users d"
    and alt: "d' = d2 \<or> (\<exists>a. d' = update_reputation a d2)" by blast
  from assms(1) d2 have n2: "\<forall>u\<in>set (users d2). 0 \<le> reputation u" by simp
  from alt show ?thesis
  proof
    assume "d' = d2"
    with n2 show ?thesis by simp
  next
    assume "\<exists>a. d' = update_reputation a d2"
    then obtain a where "d' = update_reputation a d2" by blast
    with update_reputation_nonneg [OF n2, of a] show ?thesis by simp
  qed
qed

lemma apply_action_nonneg:
  assumes "\<forall>u\<in>set (users d). 0 \<le> reputation u"
  shows "\<forall>u\<in>set (users (apply_action act d)). 0 \<le> reputation u"
proof (cases act)
  case (Post form now req)
  with users_step_nonneg [OF assms HomePageView_post_users] show ?thesis by simp
next
  case (Vote v)
  show ?thesis
  proof (cases v)
    case (Upvote req tid)
    with Vote users_step_nonneg [OF assms upvote_tip_users] show ?thesis by simp
  next
    case (Downvote req tid)
    with Vote users_step_nonneg [OF assms downvote_tip_users] show ?thesis by simp
  qed
next
  case (Delete req tid)
  with users_step_nonneg [OF assms delete_tip_users] show ?thesis by simp
qed

lemma run_actions_nonneg:
  "\<forall>u\<in>set (users d). 0 \<le> reputation u \<Longrightarrow>
     \<forall>u\<in>set (users (run_actions acts d)). 0 \<le> reputation u"
  unfolding run_actions_def
proof (induction acts arbitrary: d)
  case Nil
  then show ?case by simp
next
  case (Cons act acts)
  from Cons.IH [OF apply_action_nonneg [OF Cons.prems]] show ?case by simp
qed

section \<open>Facts about the vote total\<close>

lemma map_upvote_absent:
  "tid \<notin> tip_id ` set xs \<Longrightarrow>
     map (\<lambda>x. if tip_id x = tid then x\<lparr>upvotes := finsert uid (upvotes x)\<rparr> else x) xs = xs"
  by (induction xs) auto

lemma score_after_add:
  assumes "distinct (map tip_id xs)" and "find (\<lambda>x. tip_id x = tid) xs = Some t"
    and "author t = a" and "uid |\<notin>| upvotes t"
  shows "(\<Sum>x\<leftarrow>filter (\<lambda>x. author x = a)
              (map (\<lambda>x. if tip_id x = tid then x\<lparr>upvotes := finsert uid (upvotes x)\<rparr> else x) xs).
            5 * int (fcard (upvotes x)) - 2 * int (fcard (downvotes x)))
       = (\<Sum>x\<leftarrow>filter (\<lambda>x. author x = a) xs.
            5 * int (fcard (upvotes x)) - 2 * int (fcard (downvotes x))) + 5"
  using assms
proof (induction xs)
  case Nil
  then show ?case by simp
next
  case (Cons x xs)
  show ?case
  proof (cases "tip_id x = tid")
    case True
    with Cons.prems have xt: "x = t" and absent: "tid \<notin> tip_id ` set xs" by auto
    from Cons.prems(4) have "fcard (finsert uid (upvotes t)) = Suc (fcard (upvotes t))"
      by (simp add: fcard_finsert_disjoint)
    with True xt Cons.prems(3) absent show ?thesis
      by (simp add: map_upvote_absent)
  next
    case False
    with Cons.prems have "distinct (map tip_id xs)" "find (\<lambda>x. tip_id x = tid) xs = Some t"
      by auto
    from Cons.IH [OF this Cons.prems(3,4)] False show ?thesis by simp
  qed
qed

section \<open>Facts about stored reputations and vote totals\<close>

lemma update_reputation_stored:
  "get_user (update_reputation a d) (user_id a) =
     Some (a\<lparr>reputation := max 0 (vote_total (user_id a) (update_reputation a d))\<rparr>)"
  using get_user_update_reputation [of a d]
  by (simp add: tips_update_reputation tips_all_def)

lemma tip_seq_save_user: "tip_seq (save_user s d) = tip_seq d"
  by (simp add: save_user_def)

lemma tip_seq_update_reputation: "tip_seq (update_reputation a d) = tip_seq d"
  by (simp add: update_reputation_eq tip_seq_save_user)

lemma get_user_same_users: "users d2 = users d \<Longrightarrow> get_user d2 k = get_user d k"
  by (simp add: get_user_def)

lemma rows_differ_refl: "rows_differ_at tid xs xs"
  by (simp add: list_all2_same)

lemma rows_differ_trans:
  assumes "rows_differ_at tid xs ys" and "rows_differ_at tid ys zs"
  shows "rows_differ_at tid xs zs"
  using assms
proof (induction xs ys arbitrary: zs rule: list_all2_induct)
  case Nil
  then show ?case by simp
next
  case (Cons x xs y ys)
  from Cons.prems obtain z zs' where zs: "zs = z # zs'"
    and z: "tip_id z = tip_id y \<and> author z = author y \<and> (tip_id y \<noteq> tid \<longrightarrow> z = y)"
    and rest: "rows_differ_at tid ys zs'"
    by (auto simp: list_all2_Cons1)
  from Cons.IH [OF rest] Cons.hyps(1) z zs show ?case by auto
qed

lemma rows_differ_map:
  assumes "\<And>x. tip_id (h x) = tip_id x \<and> author (h x) = author x"
  shows "rows_differ_at tid xs (map (\<lambda>x. if tip_id x = tid then h x else x) xs)"
  using assms by (simp add: list_all2_map2 list_all2_same)

lemma rows_differ_writes:
  "rows_differ_at tid (tips d) (tips (upvotes_add tid uid d))"
  "rows_differ_at tid (tips d) (tips (upvotes_remove tid uid d))"
  "rows_differ_at tid (tips d) (tips (downvotes_add tid uid d))"
  "rows_differ_at tid (tips d) (tips (downvotes_remove tid uid d))"
  unfolding upvotes_add_def upvotes_remove_def downvotes_add_def downvotes_remove_def
  by (simp_all add: list_all2_map2 list_all2_same)

lemma tip_seq_writes:
  "tip_seq (upvotes_add tid uid d) = tip_seq d"
  "tip_seq (upvotes_remove tid uid d) = tip_seq d"
  "tip_seq (downvotes_add tid uid d) = tip_seq d"
  "tip_seq (downvotes_remove tid uid d) = tip_seq d"
  by (simp_all add: upvotes_add_def upvotes_remove_def downvotes_add_def downvotes_remove_def)

lemma rows_differ_ids: "rows_differ_at tid xs ys \<Longrightarrow> map tip_id ys = map tip_id xs"
  by (induction xs ys rule: list_all2_induct) simp_all

lemma rows_differ_other_authors:
  assumes "rows_differ_at tid xs ys"
    and "\<forall>x\<in>set xs. tip_id x = tid \<longrightarrow> author x = b"
    and "k \<noteq> b"
  shows "filter (\<lambda>x. author x = k) ys = filter (\<lambda>x. author x = k) xs"
  using assms
  by (induction xs ys rule: list_all2_induct) auto

lemma only_row_with_key:
  assumes "distinct (map tip_id xs)" and "find (\<lambda>x. tip_id x = tid) xs = Some t"
  shows "\<forall>x\<in>set xs. tip_id x = tid \<longrightarrow> x = t"
proof (intro ballI impI)
  fix x assume "x \<in> set xs" and "tip_id x = tid"
  with find_distinct_row [OF assms(1), of x] assms(2) show "x = t" by simp
qed

text \<open>What each view does to the state.\<close>

lemma vote_writes_rows:
  "rows_differ_at tid (tips d)
     (tips (let d1 = (if c1 then downvotes_remove tid uid d else d)
            in if c2 d1 then upvotes_remove tid uid d1 else upvotes_add tid uid d1))"
  "rows_differ_at tid (tips d)
     (tips (let d1 = (if c1 then upvotes_remove tid uid d else d)
            in if c2 d1 then downvotes_remove tid uid d1 else downvotes_add tid uid d1))"
proof -
  have a: "rows_differ_at tid (tips d) (tips (if c1 then downvotes_remove tid uid d else d))"
    by (simp add: rows_differ_writes rows_differ_refl)
  have b: "rows_differ_at tid (tips d) (tips (if c1 then upvotes_remove tid uid d else d))"
    by (simp add: rows_differ_writes rows_differ_refl)
  have up: "\<And>d1. rows_differ_at tid (tips d1)
        (tips (if c2 d1 then upvotes_remove tid uid d1 else upvotes_add tid uid d1))"
    by (simp add: rows_differ_writes)
  have dn: "\<And>d1. rows_differ_at tid (tips d1)
        (tips (if c2 d1 then downvotes_remove tid uid d1 else downvotes_add tid uid d1))"
    by (simp add: rows_differ_writes)
  show "rows_differ_at tid (tips d)
     (tips (let d1 = (if c1 then downvotes_remove tid uid d else d)
            in if c2 d1 then upvotes_remove tid uid d1 else upvotes_add tid uid d1))"
    unfolding Let_def by (rule rows_differ_trans [OF a up])
  show "rows_differ_at tid (tips d)
     (tips (let d1 = (if c1 then upvotes_remove tid uid d else d)
            in if c2 d1 then downvotes_remove tid uid d1 else downvotes_add tid uid d1))"
    unfolding Let_def by (rule rows_differ_trans [OF b dn])
qed

lemma upvote_tip_shape:
  "snd (upvote_tip req tid d) = d
   \<or> (\<exists>t d2. get_tip d tid = Some t \<and> users d2 = users d \<and> tip_seq d2 = tip_seq d
         \<and> rows_differ_at tid (tips d) (tips d2)
         \<and> ((get_user d (author t) = None \<and> snd (upvote_tip req tid d) = d2)
            \<or> (\<exists>a. get_user d (author t) = Some a
                  \<and> snd (upvote_tip req tid d) = update_reputation a d2)))"
proof (cases "request_user req d")
  case None
  then show ?thesis by (simp add: upvote_tip_unchanged)
next
  case u: (Some u)
  show ?thesis
  proof (cases "get_tip d tid")
    case None
    then show ?thesis by (simp add: upvote_tip_unchanged)
  next
    case t: (Some t)
    define d2 where "d2 =
      (let d1 = (if user_id u |\<in>| downvotes_all d tid
                 then downvotes_remove tid (user_id u) d else d)
       in if user_id u |\<in>| upvotes_all d1 tid
          then upvotes_remove tid (user_id u) d1 else upvotes_add tid (user_id u) d1)"
    have us: "users d2 = users d" by (simp add: d2_def Let_def users_m2m)
    have sq: "tip_seq d2 = tip_seq d" by (simp add: d2_def Let_def tip_seq_writes)
    have rows: "rows_differ_at tid (tips d) (tips d2)"
      unfolding d2_def by (rule vote_writes_rows(1))
    have run: "snd (upvote_tip req tid d) =
        (case get_user d2 (author t) of None \<Rightarrow> d2 | Some a \<Rightarrow> update_reputation a d2)"
      using u t by (simp add: upvote_tip_def d2_def Let_def split: option.splits)
    have ga: "get_user d2 (author t) = get_user d (author t)"
      by (rule get_user_same_users [OF us])
    have "(get_user d (author t) = None \<and> snd (upvote_tip req tid d) = d2)
            \<or> (\<exists>a. get_user d (author t) = Some a
                  \<and> snd (upvote_tip req tid d) = update_reputation a d2)"
      using run ga by (cases "get_user d (author t)") simp_all
    with t us sq rows show ?thesis by blast
  qed
qed

lemma downvote_tip_shape:
  "snd (downvote_tip req tid d) = d
   \<or> (\<exists>t a d2. get_tip d tid = Some t \<and> get_user d (author t) = Some a
         \<and> users d2 = users d \<and> tip_seq d2 = tip_seq d
         \<and> rows_differ_at tid (tips d) (tips d2)
         \<and> snd (downvote_tip req tid d) = update_reputation a d2)"
proof -
  consider (same) "snd (downvote_tip req tid d) = d"
    | (voted) u t a where "request_user req d = Some u" "get_tip d tid = Some t"
        "get_user d (author t) = Some a" "user_id u = user_id a \<or> can_downvote u"
    using downvote_tip_unchanged [of req d tid]
    by (cases "request_user req d"; cases "get_tip d tid") (auto, metis option.exhaust)
  then show ?thesis
  proof cases
    case same
    then show ?thesis by blast
  next
    case voted
    define d2 where "d2 =
      (let d1 = (if user_id u |\<in>| upvotes_all d tid
                 then upvotes_remove tid (user_id u) d else d)
       in if user_id u |\<in>| downvotes_all d1 tid
          then downvotes_remove tid (user_id u) d1 else downvotes_add tid (user_id u) d1)"
    have us: "users d2 = users d" by (simp add: d2_def Let_def users_m2m)
    have sq: "tip_seq d2 = tip_seq d" by (simp add: d2_def Let_def tip_seq_writes)
    have rows: "rows_differ_at tid (tips d) (tips d2)"
      unfolding d2_def by (rule vote_writes_rows(2))
    have "snd (downvote_tip req tid d) = update_reputation a d2"
      using voted by (simp add: downvote_tip_def d2_def Let_def)
    with voted(2,3) us sq rows show ?thesis by blast
  qed
qed

lemma delete_tip_shape:
  "snd (delete_tip req tid d) = d
   \<or> (\<exists>t a. get_tip d tid = Some t \<and> get_user d (author t) = Some a
         \<and> snd (delete_tip req tid d)
             = update_reputation a (d\<lparr>tips := filter (\<lambda>x. tip_id x \<noteq> tid) (tips d)\<rparr>))"
proof (cases "request_user req d")
  case None
  then show ?thesis by (simp add: delete_tip_def)
next
  case u: (Some u)
  show ?thesis
  proof (cases "get_tip d tid")
    case None
    with u show ?thesis by (simp add: delete_tip_def)
  next
    case t: (Some t)
    from get_tip_id [OF t] have idt: "tip_id t = tid" .
    show ?thesis
    proof (cases "get_user d (author t)")
      case None
      with u t show ?thesis by (simp add: delete_tip_def)
    next
      case a: (Some a)
      show ?thesis
      proof (cases "user_id u = user_id a \<or> can_delete_tips u")
        case True
        with u t a idt have "snd (delete_tip req tid d)
            = update_reputation a (d\<lparr>tips := filter (\<lambda>x. tip_id x \<noteq> tid) (tips d)\<rparr>)"
          by (simp add: delete_tip_def Tip_delete_def)
        with t a show ?thesis by blast
      next
        case False
        with u t a show ?thesis by (simp add: delete_tip_def)
      qed
    qed
  qed
qed

lemma HomePageView_post_shape:
  "snd (HomePageView_post form now req d) = d
   \<or> (\<exists>u c. request_user req d = Some u \<and> form (POST req) = Some c
         \<and> snd (HomePageView_post form now req d)
             = update_reputation u
                 (d\<lparr>tips := tips d @ [\<lparr>tip_id = Suc (tip_seq d), content = c,
                                         author = user_id u, date = now,
                                         upvotes = {||}, downvotes = {||}\<rparr>],
                    tip_seq := Suc (tip_seq d)\<rparr>))"
proof (cases "request_user req d")
  case None
  then show ?thesis by (simp add: HomePageView_post_def)
next
  case u: (Some u)
  show ?thesis
  proof (cases "form (POST req)")
    case None
    with u show ?thesis by (simp add: HomePageView_post_def)
  next
    case (Some c)
    with u show ?thesis
      by (simp add: HomePageView_post_def Tip_save_def Let_def)
  qed
qed

text \<open>When a view recomputes, the state it leaves is the one \<open>update_reputation\<close> leaves.\<close>

lemma upvote_tip_recomputes:
  assumes "request_user req d = Some u" and "get_tip d tid = Some t"
    and "get_user d (author t) = Some a"
  shows "\<exists>d2. snd (upvote_tip req tid d) = update_reputation a d2"
  using assms by (auto simp: upvote_tip_def Let_def get_user_m2m)

lemma downvote_tip_recomputes:
  assumes "request_user req d = Some u" and "get_tip d tid = Some t"
    and "get_user d (author t) = Some a" and "user_id u = author t \<or> can_downvote u"
  shows "\<exists>d2. snd (downvote_tip req tid d) = update_reputation a d2"
  using assms get_user_id [OF assms(3)] by (auto simp: downvote_tip_def Let_def)

lemma delete_tip_recomputes:
  assumes "request_user req d = Some u" and "get_tip d tid = Some t"
    and "get_user d (author t) = Some a" and "user_id u = author t \<or> can_delete_tips u"
  shows "\<exists>d2. snd (delete_tip req tid d) = update_reputation a d2"
  using assms get_user_id [OF assms(3)] by (auto simp: delete_tip_def Tip_delete_def)

lemma HomePageView_post_recomputes:
  assumes "request_user req d = Some u" and "form (POST req) = Some c"
  shows "\<exists>d2. snd (HomePageView_post form now req d) = update_reputation u d2"
  using assms by (auto simp: HomePageView_post_def Tip_save_def Let_def)

lemma recomputed_is_clamped_total:
  assumes "\<exists>d2. d' = update_reputation a d2" and "user_id a = b"
  shows "get_user d' b = Some (a\<lparr>reputation := max 0 (vote_total b d')\<rparr>)
       \<and> (vote_total b d' < 0 \<longrightarrow> map_option reputation (get_user d' b) = Some 0)"
proof -
  from assms(1) obtain d2 where d': "d' = update_reputation a d2" by blast
  from update_reputation_stored [of a d2] assms(2) d'
  have "get_user d' b = Some (a\<lparr>reputation := max 0 (vote_total b d')\<rparr>)" by simp
  then show ?thesis by simp
qed

text \<open>
  Stored reputations agree with the vote totals: preserved by a step that changes the
  tips of one author only and then recomputes that author.
\<close>

lemma consistent_step:
  assumes cons: "\<forall>k v. get_user d k = Some v \<longrightarrow> reputation v = max 0 (vote_total k d)"
    and us: "users d2 = users d"
    and others: "\<forall>k. k \<noteq> b \<longrightarrow>
        filter (\<lambda>x. author x = k) (tips d2) = filter (\<lambda>x. author x = k) (tips d)"
    and how: "(get_user d b = None \<and> d' = d2) \<or> (\<exists>a. user_id a = b \<and> d' = update_reputation a d2)"
  shows "\<forall>k v. get_user d' k = Some v \<longrightarrow> reputation v = max 0 (vote_total k d')"
proof (intro allI impI)
  fix k v assume g: "get_user d' k = Some v"
  from how show "reputation v = max 0 (vote_total k d')"
  proof
    assume h: "get_user d b = None \<and> d' = d2"
    with g get_user_same_users [OF us, of k] have gk: "get_user d k = Some v" by simp
    with h have "k \<noteq> b" by auto
    with others h have "vote_total k d' = vote_total k d" by simp
    with cons gk show ?thesis by simp
  next
    assume "\<exists>a. user_id a = b \<and> d' = update_reputation a d2"
    then obtain a where a: "user_id a = b" and d': "d' = update_reputation a d2" by blast
    show ?thesis
    proof (cases "k = b")
      case True
      from update_reputation_stored [of a d2] a d' True g
      have "v = a\<lparr>reputation := max 0 (vote_total k d')\<rparr>" by simp
      then show ?thesis by simp
    next
      case False
      with g a d' have "get_user d2 k = Some v"
        by (simp add: get_user_update_reputation_iff)
      with get_user_same_users [OF us, of k] have gk: "get_user d k = Some v" by simp
      from False others d' have "vote_total k d' = vote_total k d"
        by (simp add: tips_update_reputation)
      with cons gk show ?thesis by simp
    qed
  qed
qed

lemma vote_step:
  assumes dist: "distinct (map tip_id (tips d))"
    and bound: "\<forall>x\<in>set (tips d). tip_id x \<le> tip_seq d"
    and cons: "\<forall>k v. get_user d k = Some v \<longrightarrow> reputation v = max 0 (vote_total k d)"
    and t: "get_tip d tid = Some t"
    and us: "users d2 = users d" and sq: "tip_seq d2 = tip_seq d"
    and rows: "rows_differ_at tid (tips d) (tips d2)"
    and how: "(get_user d (author t) = None \<and> d' = d2)
              \<or> (\<exists>a. get_user d (author t) = Some a \<and> d' = update_reputation a d2)"
  shows "distinct (map tip_id (tips d'))
       \<and> (\<forall>x\<in>set (tips d'). tip_id x \<le> tip_seq d')
       \<and> (\<forall>k v. get_user d' k = Some v \<longrightarrow> reputation v = max 0 (vote_total k d'))"
proof -
  from how have td': "tips d' = tips d2" and sd': "tip_seq d' = tip_seq d2"
    by (auto simp: tips_update_reputation tip_seq_update_reputation)
  from rows_differ_ids [OF rows] have ids: "map tip_id (tips d2) = map tip_id (tips d)" .
  from bound have "\<forall>i\<in>set (map tip_id (tips d)). i \<le> tip_seq d" by simp
  with ids have "\<forall>i\<in>set (map tip_id (tips d2)). i \<le> tip_seq d" by simp
  then have b2: "\<forall>x\<in>set (tips d2). tip_id x \<le> tip_seq d" by simp
  from t have found: "find (\<lambda>x. tip_id x = tid) (tips d) = Some t" by (simp add: get_tip_def)
  from only_row_with_key [OF dist found]
  have one: "\<forall>x\<in>set (tips d). tip_id x = tid \<longrightarrow> author x = author t" by auto
  have others: "\<forall>k. k \<noteq> author t \<longrightarrow>
        filter (\<lambda>x. author x = k) (tips d2) = filter (\<lambda>x. author x = k) (tips d)"
    using rows_differ_other_authors [OF rows one] by blast
  from how have how': "(get_user d (author t) = None \<and> d' = d2)
       \<or> (\<exists>a. user_id a = author t \<and> d' = update_reputation a d2)"
    using get_user_id by blast
  from consistent_step [OF cons us others how'] dist ids b2 td' sd' sq
  show ?thesis by simp
qed

lemma delete_step:
  assumes dist: "distinct (map tip_id (tips d))"
    and bound: "\<forall>x\<in>set (tips d). tip_id x \<le> tip_seq d"
    and cons: "\<forall>k v. get_user d k = Some v \<longrightarrow> reputation v = max 0 (vote_total k d)"
    and t: "get_tip d tid = Some t" and a: "get_user d (author t) = Some a"
    and d': "d' = update_reputation a (d\<lparr>tips := filter (\<lambda>x. tip_id x \<noteq> tid) (tips d)\<rparr>)"
  shows "distinct (map tip_id (tips d'))
       \<and> (\<forall>x\<in>set (tips d'). tip_id x \<le> tip_seq d')
       \<and> (\<forall>k v. get_user d' k = Some v \<longrightarrow> reputation v = max 0 (vote_total k d'))"
proof -
  let ?d2 = "d\<lparr>tips := filter (\<lambda>x. tip_id x \<noteq> tid) (tips d)\<rparr>"
  from t have found: "find (\<lambda>x. tip_id x = tid) (tips d) = Some t" by (simp add: get_tip_def)
  from only_row_with_key [OF dist found]
  have one: "\<forall>x\<in>set (tips d). tip_id x = tid \<longrightarrow> author x = author t" by auto
  have others: "\<forall>k. k \<noteq> author t \<longrightarrow>
        filter (\<lambda>x. author x = k) (tips ?d2) = filter (\<lambda>x. author x = k) (tips d)"
  proof (intro allI impI)
    fix k assume "k \<noteq> author t"
    with one have "\<forall>x\<in>set (tips d). (tip_id x \<noteq> tid \<and> author x = k) = (author x = k)" by auto
    then show "filter (\<lambda>x. author x = k) (tips ?d2) = filter (\<lambda>x. author x = k) (tips d)"
      by (simp cong: filter_cong)
  qed
  have how: "(get_user d (author t) = None \<and> d' = ?d2)
       \<or> (\<exists>a. user_id a = author t \<and> d' = update_reputation a ?d2)"
    using get_user_id [OF a] d' by blast
  have us: "users ?d2 = users d" by simp
  from consistent_step [OF cons us others how] dist bound d'
  show ?thesis
    by (simp add: tips_update_reputation tip_seq_update_reputation distinct_map_filter)
qed

lemma post_step:
  assumes dist: "distinct (map tip_id (tips d))"
    and bound: "\<forall>x\<in>set (tips d). tip_id x \<le> tip_seq d"
    and cons: "\<forall>k v. get_user d k = Some v \<longrightarrow> reputation v = max 0 (vote_total k d)"
    and d': "d' = update_reputation u
                 (d\<lparr>tips := tips d @ [\<lparr>tip_id = Suc (tip_seq d), content = c,
                                         author = user_id u, date = now,
                                         upvotes = {||}, downvotes = {||}\<rparr>],
                    tip_seq := Suc (tip_seq d)\<rparr>)"
  shows "distinct (map tip_id (tips d'))
       \<and> (\<forall>x\<in>set (tips d'). tip_id x \<le> tip_seq d')
       \<and> (\<forall>k v. get_user d' k = Some v \<longrightarrow> reputation v = max 0 (vote_total k d'))"
proof -
  let ?d2 = "d\<lparr>tips := tips d @ [\<lparr>tip_id = Suc (tip_seq d), content = c,
                                         author = user_id u, date = now,
                                         upvotes = {||}, downvotes = {||}\<rparr>],
                    tip_seq := Suc (tip_seq d)\<rparr>"
  have others: "\<forall>k. k \<noteq> user_id u \<longrightarrow>
        filter (\<lambda>x. author x = k) (tips ?d2) = filter (\<lambda>x. author x = k) (tips d)"
    by simp
  have how: "(get_user d (user_id u) = None \<and> d' = ?d2)
       \<or> (\<exists>a. user_id a = user_id u \<and> d' = update_reputation a ?d2)"
    using d' by blast
  have us: "users ?d2 = users d" by simp
  from bound have fresh: "Suc (tip_seq d) \<notin> tip_id ` set (tips d)" by auto
  from bound have b2: "\<forall>x\<in>set (tips d). tip_id x \<le> Suc (tip_seq d)" by auto
  from consistent_step [OF cons us others how] dist fresh b2 d'
  show ?thesis
    by (simp add: tips_update_reputation tip_seq_update_reputation)
qed

lemma apply_action_consistent:
  assumes dist: "distinct (map tip_id (tips d))"
    and bound: "\<forall>x\<in>set (tips d). tip_id x \<le> tip_seq d"
    and cons: "\<forall>k v. get_user d k = Some v \<longrightarrow> reputation v = max 0 (vote_total k d)"
  shows "distinct (map tip_id (tips (apply_action act d)))
       \<and> (\<forall>x\<in>set (tips (apply_action act d)). tip_id x \<le> tip_seq (apply_action act d))
       \<and> (\<forall>k v. get_user (apply_action act d) k = Some v \<longrightarrow>
              reputation v = max 0 (vote_total k (apply_action act d)))"
proof (cases act)
  case (Post form now req)
  from HomePageView_post_shape [of form now req d] show ?thesis
  proof
    assume "snd (HomePageView_post form now req d) = d"
    with Post assms show ?thesis by simp
  next
    assume "\<exists>u c. request_user req d = Some u \<and> form (POST req) = Some c
         \<and> snd (HomePageView_post form now req d)
             = update_reputation u
                 (d\<lparr>tips := tips d @ [\<lparr>tip_id = Suc (tip_seq d), content = c,
                                         author = user_id u, date = now,
                                         upvotes = {||}, downvotes = {||}\<rparr>],
                    tip_seq := Suc (tip_seq d)\<rparr>)"
    then obtain u c where "snd (HomePageView_post form now req d)
             = update_reputation u
                 (d\<lparr>tips := tips d @ [\<lparr>tip_id = Suc (tip_seq d), content = c,
                                         author = user_id u, date = now,
                                         upvotes = {||}, downvotes = {||}\<rparr>],
                    tip_seq := Suc (tip_seq d)\<rparr>)" by blast
    from post_step [OF assms this] Post show ?thesis by simp
  qed
next
  case (Vote v)
  show ?thesis
  proof (cases v)
    case (Upvote req tid)
    from upvote_tip_shape [of req tid d] show ?thesis
    proof
      assume "snd (upvote_tip req tid d) = d"
      with Vote Upvote assms show ?thesis by simp
    next
      assume "\<exists>t d2. get_tip d tid = Some t \<and> users d2 = users d \<and> tip_seq d2 = tip_seq d
         \<and> rows_differ_at tid (tips d) (tips d2)
         \<and> ((get_user d (author t) = None \<and> snd (upvote_tip req tid d) = d2)
            \<or> (\<exists>a. get_user d (author t) = Some a
                  \<and> snd (upvote_tip req tid d) = update_reputation a d2))"
      then obtain t d2 where t: "get_tip d tid = Some t" and us: "users d2 = users d"
        and sq: "tip_seq d2 = tip_seq d" and rows: "rows_differ_at tid (tips d) (tips d2)"
        and how: "(get_user d (author t) = None \<and> snd (upvote_tip req tid d) = d2)
            \<or> (\<exists>a. get_user d (author t) = Some a
                  \<and> snd (upvote_tip req tid d) = update_reputation a d2)" by blast
      from vote_step [OF assms t us sq rows how] Vote Upvote show ?thesis by simp
    qed
  next
    case (Downvote req tid)
    from downvote_tip_shape [of req tid d] show ?thesis
    proof
      assume "snd (downvote_tip req tid d) = d"
      with Vote Downvote assms show ?thesis by simp
    next
      assume "\<exists>t a d2. get_tip d tid = Some t \<and> get_user d (author t) = Some a
         \<and> users d2 = users d \<and> tip_seq d2 = tip_seq d
         \<and> rows_differ_at tid (tips d) (tips d2)
         \<and> snd (downvote_tip req tid d) = update_reputation a d2"
      then obtain t a d2 where t: "get_tip d tid = Some t" and us: "users d2 = users d"
        and sq: "tip_seq d2 = tip_seq d" and rows: "rows_differ_at tid (tips d) (tips d2)"
        and "get_user d (author t) = Some a"
        and "snd (downvote_tip req tid d) = update_reputation a d2" by blast
      then have how: "(get_user d (author t) = None \<and> snd (downvote_tip req tid d) = d2)
            \<or> (\<exists>a. get_user d (author t) = Some a
                  \<and> snd (downvote_tip req tid d) = update_reputation a d2)" by blast
      from vote_step [OF assms t us sq rows how] Vote Downvote show ?thesis by simp
    qed
  qed
next
  case (Delete req tid)
  from delete_tip_shape [of req tid d] show ?thesis
  proof
    assume "snd (delete_tip req tid d) = d"
    with Delete assms show ?thesis by simp
  next
    assume "\<exists>t a. get_tip d tid = Some t \<and> get_user d (author t) = Some a
         \<and> snd (delete_tip req tid d)
             = update_reputation a (d\<lparr>tips := filter (\<lambda>x. tip_id x \<noteq> tid) (tips d)\<rparr>)"
    then obtain t a where "get_tip d tid = Some t" "get_user d (author t) = Some a"
      "snd (delete_tip req tid d)
             = update_reputation a (d\<lparr>tips := filter (\<lambda>x. tip_id x \<noteq> tid) (tips d)\<rparr>)" by blast
    from delete_step [OF assms this] Delete show ?thesis by simp
  qed
qed

lemma run_actions_consistent:
  assumes "distinct (map tip_id (tips d))"
    and "\<forall>x\<in>set (tips d). tip_id x \<le> tip_seq d"
    and "\<forall>k v. get_user d k = Some v \<longrightarrow> reputation v = max 0 (vote_total k d)"
  shows "\<forall>k v. get_user (run_actions acts d) k = Some v \<longrightarrow>
              reputation v = max 0 (vote_total k (run_actions acts d))"
  using assms unfolding run_actions_def
proof (induction acts arbitrary: d)
  case Nil
  then show ?case by simp
next
  case (Cons act acts)
  from apply_action_consistent [OF Cons.prems, of act]
  have "distinct (map tip_id (tips (apply_action act d)))"
    and "\<forall>x\<in>set (tips (apply_action act d)). tip_id x \<le> tip_seq (apply_action act d)"
    and "\<forall>k v. get_user (apply_action act d) k = Some v \<longrightarrow>
              reputation v = max 0 (vote_total k (apply_action act d))"
    by blast+
  from Cons.IH [OF this] show ?case by simp
qed

text \<open>Unfolding rules for the concrete checks.\<close>

lemmas sample_defs = sample_db_def sample_user_def sample_tip_def sample_request_def
  request_user_def get_user_def get_tip_def upvotes_all_def downvotes_all_def gate_db_def

lemmas view_defs = upvote_tip_def downvote_tip_def upvotes_add_def upvotes_remove_def
  downvotes_add_def downvotes_remove_def update_reputation_def save_user_def tips_all_def
  respond_def can_downvote_def Let_def

section \<open>Reputation formula\<close>

text \<open>
  Claim C1. \<open>update_reputation\<close> stores, for the user it is called on, the maximum of 0
  and the sum over that user's tips of five times the number of upvoters minus twice the
  number of downvoters. An author whose tips are exactly three, with (upvotes, downvotes)
  of (2,0), (1,1) and (0,3), ends with reputation 7; an author without tips ends with 0.
\<close>

theorem update_reputation_formula:
  "get_user (update_reputation self d) (user_id self) =
     Some (self\<lparr>reputation :=
        max 0 (\<Sum>t\<leftarrow>filter (\<lambda>t. author t = user_id self) (tips d).
                 5 * int (fcard (upvotes t)) - 2 * int (fcard (downvotes t)))\<rparr>)
   \<and> (\<forall>t1 t2 t3.
        filter (\<lambda>t. author t = user_id self) (tips d) = [t1, t2, t3]
        \<and> fcard (upvotes t1) = 2 \<and> fcard (downvotes t1) = 0
        \<and> fcard (upvotes t2) = 1 \<and> fcard (downvotes t2) = 1
        \<and> fcard (upvotes t3) = 0 \<and> fcard (downvotes t3) = 3
        \<longrightarrow> map_option reputation (get_user (update_reputation self d) (user_id self)) = Some 7)
   \<and> (filter (\<lambda>t. author t = user_id self) (tips d) = []
        \<longrightarrow> map_option reputation (get_user (update_reputation self d) (user_id self)) = Some 0)"
proof -
  have eq: "get_user (update_reputation self d) (user_id self) =
     Some (self\<lparr>reputation :=
        max 0 (\<Sum>t\<leftarrow>filter (\<lambda>t. author t = user_id self) (tips d).
                 5 * int (fcard (upvotes t)) - 2 * int (fcard (downvotes t)))\<rparr>)"
    using get_user_update_reputation [of self d] by (simp add: tips_all_def)
  show ?thesis
    by (simp add: eq)
qed

theorem update_reputation_formula_witness:
  "filter (\<lambda>t. author t = user_id (sample_user 1 0 False)) (tips sample_db)
     = [sample_tip 1 1 {|2, 3|} {||}, sample_tip 2 1 {|2|} {|3|}, sample_tip 3 1 {||} {|2, 3, 4|}]
   \<and> map_option reputation
        (get_user (update_reputation (sample_user 1 0 False) sample_db) 1) = Some 7
   \<and> filter (\<lambda>t. author t = user_id (sample_user 3 9 False)) (tips sample_db) = []
   \<and> map_option reputation
        (get_user (update_reputation (sample_user 3 9 False) sample_db) 3) = Some 0"
proof -
  have f1: "filter (\<lambda>t. author t = user_id (sample_user 1 0 False)) (tips sample_db)
     = [sample_tip 1 1 {|2, 3|} {||}, sample_tip 2 1 {|2|} {|3|}, sample_tip 3 1 {||} {|2, 3, 4|}]"
    by (simp add: sample_db_def sample_user_def sample_tip_def)
  have c1: "fcard (upvotes (sample_tip 1 1 {|2, 3|} {||})) = 2
          \<and> fcard (downvotes (sample_tip 1 1 {|2, 3|} {||})) = 0
          \<and> fcard (upvotes (sample_tip 2 1 {|2|} {|3|})) = 1
          \<and> fcard (downvotes (sample_tip 2 1 {|2|} {|3|})) = 1
          \<and> fcard (upvotes (sample_tip 3 1 {||} {|2, 3, 4|})) = 0
          \<and> fcard (downvotes (sample_tip 3 1 {||} {|2, 3, 4|})) = 3"
    by (simp add: sample_tip_def fcard_finsert_if)
  have f3: "filter (\<lambda>t. author t = user_id (sample_user 3 9 False)) (tips sample_db) = []"
    by (simp add: sample_db_def sample_user_def sample_tip_def)
  have u1: "user_id (sample_user 1 0 False) = 1" and u3: "user_id (sample_user 3 9 False) = 3"
    by (simp_all add: sample_user_def)
  note th1 = update_reputation_formula [of "sample_user 1 0 False" sample_db]
  note th3 = update_reputation_formula [of "sample_user 3 9 False" sample_db]
  from th1 have "filter (\<lambda>t. author t = user_id (sample_user 1 0 False)) (tips sample_db)
          = [sample_tip 1 1 {|2, 3|} {||}, sample_tip 2 1 {|2|} {|3|}, sample_tip 3 1 {||} {|2, 3, 4|}]
        \<and> fcard (upvotes (sample_tip 1 1 {|2, 3|} {||})) = 2
        \<and> fcard (downvotes (sample_tip 1 1 {|2, 3|} {||})) = 0
        \<and> fcard (upvotes (sample_tip 2 1 {|2|} {|3|})) = 1
        \<and> fcard (downvotes (sample_tip 2 1 {|2|} {|3|})) = 1
        \<and> fcard (upvotes (sample_tip 3 1 {||} {|2, 3, 4|})) = 0
        \<and> fcard (downvotes (sample_tip 3 1 {||} {|2, 3, 4|})) = 3
        \<longrightarrow> map_option reputation
              (get_user (update_reputation (sample_user 1 0 False) sample_db)
                 (user_id (sample_user 1 0 False))) = Some 7"
    by blast
  with f1 c1 u1 have r1: "map_option reputation
        (get_user (update_reputation (sample_user 1 0 False) sample_db) 1) = Some 7"
    by simp
  from th3 have "filter (\<lambda>t. author t = user_id (sample_user 3 9 False)) (tips sample_db) = []
        \<longrightarrow> map_option reputation
              (get_user (update_reputation (sample_user 3 9 False) sample_db)
                 (user_id (sample_user 3 9 False))) = Some 0"
    by blast
  with f3 u3 have r3: "map_option reputation
        (get_user (update_reputation (sample_user 3 9 False) sample_db) 3) = Some 0"
    by simp
  from f1 r1 f3 r3 show ?thesis by blast
qed

section \<open>The vote relations stay disjoint\<close>

text \<open>
  Claim C2. From a state in which no user is both an upvoter and a downvoter of any tip,
  every finite sequence of upvote and downvote requests, by any users on any tips, leads
  to a state in which again no user is both an upvoter and a downvoter of any tip. The
  first part is about what the views read (\<open>tip.upvotes.all()\<close> and
  \<open>tip.downvotes.all()\<close> for every tip key), the second about every row of the tip
  table when primary keys are unique.
\<close>

theorem votes_stay_disjoint:
  "((\<forall>tid. upvotes_all d tid |\<inter>| downvotes_all d tid = {||})
      \<longrightarrow> (\<forall>tid. upvotes_all (run_votes ops d) tid |\<inter>| downvotes_all (run_votes ops d) tid = {||}))
   \<and> (distinct (map tip_id (tips d)) \<and> (\<forall>t\<in>set (tips d). upvotes t |\<inter>| downvotes t = {||})
      \<longrightarrow> (\<forall>t\<in>set (tips (run_votes ops d)). upvotes t |\<inter>| downvotes t = {||}))"
proof (intro conjI impI)
  assume "\<forall>tid. upvotes_all d tid |\<inter>| downvotes_all d tid = {||}"
  then show "\<forall>tid. upvotes_all (run_votes ops d) tid |\<inter>| downvotes_all (run_votes ops d) tid = {||}"
    by (rule run_votes_disjoint)
next
  assume a: "distinct (map tip_id (tips d)) \<and> (\<forall>t\<in>set (tips d). upvotes t |\<inter>| downvotes t = {||})"
  then have "\<forall>k. upvotes_all d k |\<inter>| downvotes_all d k = {||}"
    by (simp add: rows_disjoint_queries)
  then have q: "\<forall>k. upvotes_all (run_votes ops d) k |\<inter>| downvotes_all (run_votes ops d) k = {||}"
    by (rule run_votes_disjoint)
  from a have dist: "distinct (map tip_id (tips (run_votes ops d)))"
    by (simp add: tip_ids_run_votes)
  show "\<forall>t\<in>set (tips (run_votes ops d)). upvotes t |\<inter>| downvotes t = {||}"
  proof
    fix t assume "t \<in> set (tips (run_votes ops d))"
    from get_tip_row [OF dist this] q [rule_format, of "tip_id t"]
    show "upvotes t |\<inter>| downvotes t = {||}"
      by (simp add: upvotes_all_def downvotes_all_def)
  qed
qed

theorem votes_stay_disjoint_witness:
  "distinct (map tip_id (tips sample_db))
   \<and> list_all (\<lambda>t. upvotes t |\<inter>| downvotes t = {||}) (tips sample_db)
   \<and> list_all (\<lambda>t. upvotes t |\<inter>| downvotes t = {||}) (tips (run_votes sample_votes sample_db))
   \<and> upvotes_all (run_votes sample_votes sample_db) 4
        |\<inter>| downvotes_all (run_votes sample_votes sample_db) 4 = {||}"
proof -
  have h1: "distinct (map tip_id (tips sample_db))"
    by (simp add: sample_db_def sample_tip_def)
  have h2: "\<forall>t\<in>set (tips sample_db). upvotes t |\<inter>| downvotes t = {||}"
    by (simp add: sample_db_def sample_tip_def)
  have h3: "\<forall>tid. upvotes_all sample_db tid |\<inter>| downvotes_all sample_db tid = {||}"
    using h2 by (simp add: rows_disjoint_queries)
  note th = votes_stay_disjoint [of sample_db sample_votes]
  from th h3 have c1: "upvotes_all (run_votes sample_votes sample_db) 4
        |\<inter>| downvotes_all (run_votes sample_votes sample_db) 4 = {||}"
    by blast
  from th h1 h2 have "\<forall>t\<in>set (tips (run_votes sample_votes sample_db)).
        upvotes t |\<inter>| downvotes t = {||}"
    by blast
  then have c2: "list_all (\<lambda>t. upvotes t |\<inter>| downvotes t = {||})
        (tips (run_votes sample_votes sample_db))"
    by (simp add: list_all_iff)
  from h2 have "list_all (\<lambda>t. upvotes t |\<inter>| downvotes t = {||}) (tips sample_db)"
    by (simp add: list_all_iff)
  with h1 c1 c2 show ?thesis by blast
qed

section \<open>The vote toggles\<close>

text \<open>
  Claim C6. For a tip and an authenticated voter who is neither an upvoter nor a
  downvoter of it, two upvote requests in succession leave the voter neither an upvoter
  nor a downvoter of the tip (after the first request the voter is an upvoter).
\<close>

theorem upvote_twice_returns_to_none:
  assumes "request_user req d = Some v" and "get_tip d tid = Some t"
    and "user_id v |\<notin>| upvotes_all d tid" and "user_id v |\<notin>| downvotes_all d tid"
  shows "user_id v |\<notin>| upvotes_all (snd (upvote_tip req tid (snd (upvote_tip req tid d)))) tid
       \<and> user_id v |\<notin>| downvotes_all (snd (upvote_tip req tid (snd (upvote_tip req tid d)))) tid
       \<and> user_id v |\<in>| upvotes_all (snd (upvote_tip req tid d)) tid"
proof -
  let ?d1 = "snd (upvote_tip req tid d)"
  from request_user_upvote_tip [OF assms(1), of tid] obtain v1 where
    v1: "request_user req ?d1 = Some v1" "user_id v1 = user_id v" by blast
  from get_tip_upvote_tip [OF assms(2), of req tid] obtain t1 where
    t1: "get_tip ?d1 tid = Some t1" by blast
  have up1: "upvotes_all ?d1 tid = finsert (user_id v) (upvotes_all d tid)"
    and dn1: "downvotes_all ?d1 tid = downvotes_all d tid |-| {|user_id v|}"
    using assms(3) by (simp_all add: upvote_tip_votes [OF assms(1,2)])
  show ?thesis
    using assms(3,4) v1(2) up1 dn1
    by (simp add: upvote_tip_votes [OF v1(1) t1])
qed

theorem upvote_twice_returns_to_none_witness:
  "request_user (sample_request (Some 4)) sample_db = Some (sample_user 4 0 False)
   \<and> get_tip sample_db 1 = Some (sample_tip 1 1 {|2, 3|} {||})
   \<and> 4 |\<notin>| upvotes_all sample_db 1 \<and> 4 |\<notin>| downvotes_all sample_db 1
   \<and> 4 |\<in>| upvotes_all (snd (upvote_tip (sample_request (Some 4)) 1 sample_db)) 1
   \<and> 4 |\<notin>| upvotes_all (snd (upvote_tip (sample_request (Some 4)) 1
                               (snd (upvote_tip (sample_request (Some 4)) 1 sample_db)))) 1
   \<and> 4 |\<notin>| downvotes_all (snd (upvote_tip (sample_request (Some 4)) 1
                               (snd (upvote_tip (sample_request (Some 4)) 1 sample_db)))) 1"
proof -
  have h1: "request_user (sample_request (Some 4)) sample_db = Some (sample_user 4 0 False)"
    by (simp add: sample_defs)
  have h2: "get_tip sample_db 1 = Some (sample_tip 1 1 {|2, 3|} {||})"
    by (simp add: sample_defs)
  have h3: "user_id (sample_user 4 0 False) |\<notin>| upvotes_all sample_db 1"
    by (simp add: sample_defs)
  have h4: "user_id (sample_user 4 0 False) |\<notin>| downvotes_all sample_db 1"
    by (simp add: sample_defs)
  have u: "user_id (sample_user 4 0 False) = 4" by (simp add: sample_user_def)
  from upvote_twice_returns_to_none [OF h1 h2 h3 h4] h1 h2 h3 h4 show ?thesis
    unfolding u by blast
qed

text \<open>
  Claim C7. An upvote request followed by a downvote request of the same voter on the
  same tip, the voter being the tip's author or allowed to downvote, leaves the voter a
  downvoter and not an upvoter of the tip. This holds from every vote state of the
  voter, in particular from the state in which the voter has not voted.
\<close>

theorem upvote_then_downvote:
  assumes "request_user req d = Some v" and "get_tip d tid = Some t"
    and "get_user d (author t) = Some a"
    and "user_id v = author t \<or> can_downvote v"
  shows "user_id v |\<in>| downvotes_all (snd (downvote_tip req tid (snd (upvote_tip req tid d)))) tid
       \<and> user_id v |\<notin>| upvotes_all (snd (downvote_tip req tid (snd (upvote_tip req tid d)))) tid"
proof -
  let ?d1 = "snd (upvote_tip req tid d)"
  from request_user_upvote_tip [OF assms(1), of tid] obtain v1 where
    v1: "request_user req ?d1 = Some v1" "user_id v1 = user_id v"
      "(\<forall>t. get_tip d tid = Some t \<longrightarrow> user_id v \<noteq> author t) \<longrightarrow> v1 = v" by blast
  from get_tip_upvote_tip [OF assms(2), of req tid] obtain t1 where
    t1: "get_tip ?d1 tid = Some t1" "author t1 = author t" by blast
  from get_user_upvote_tip [of req tid d "author t"] assms(2,3) obtain a1 where
    "get_user ?d1 (author t) = Some a1" by auto
  with t1(2) have a1: "get_user ?d1 (author t1) = Some a1" by simp
  from get_user_id [OF a1] t1(2) have ida: "user_id a1 = author t" by simp
  have gate: "user_id v1 = user_id a1 \<or> can_downvote v1"
  proof (cases "user_id v = author t")
    case True
    with v1(2) ida show ?thesis by simp
  next
    case False
    with v1(3) assms(2) have "v1 = v" by simp
    with False assms(4) show ?thesis by simp
  qed
  have dn1: "downvotes_all ?d1 tid = downvotes_all d tid |-| {|user_id v|}"
    by (simp add: upvote_tip_votes [OF assms(1,2)])
  show ?thesis
    using v1(2) dn1
    by (simp add: downvote_tip_votes [OF v1(1) t1(1) a1 gate])
qed

theorem upvote_then_downvote_witness:
  "request_user (sample_request (Some 5)) sample_db = Some (sample_user 5 0 True)
   \<and> get_tip sample_db 1 = Some (sample_tip 1 1 {|2, 3|} {||})
   \<and> get_user sample_db 1 = Some (sample_user 1 7 False)
   \<and> can_downvote (sample_user 5 0 True)
   \<and> 5 |\<notin>| upvotes_all sample_db 1 \<and> 5 |\<notin>| downvotes_all sample_db 1
   \<and> 5 |\<in>| downvotes_all (snd (downvote_tip (sample_request (Some 5)) 1
                               (snd (upvote_tip (sample_request (Some 5)) 1 sample_db)))) 1
   \<and> 5 |\<notin>| upvotes_all (snd (downvote_tip (sample_request (Some 5)) 1
                               (snd (upvote_tip (sample_request (Some 5)) 1 sample_db)))) 1"
proof -
  have h1: "request_user (sample_request (Some 5)) sample_db = Some (sample_user 5 0 True)"
    by (simp add: sample_defs)
  have h2: "get_tip sample_db 1 = Some (sample_tip 1 1 {|2, 3|} {||})"
    by (simp add: sample_defs)
  have h3: "get_user sample_db (author (sample_tip 1 1 {|2, 3|} {||})) = Some (sample_user 1 7 False)"
    by (simp add: sample_defs)
  have h4: "user_id (sample_user 5 0 True) = author (sample_tip 1 1 {|2, 3|} {||})
            \<or> can_downvote (sample_user 5 0 True)"
    by (simp add: sample_defs can_downvote_def)
  have n: "5 |\<notin>| upvotes_all sample_db 1 \<and> 5 |\<notin>| downvotes_all sample_db 1"
    by (simp add: sample_defs)
  have u: "user_id (sample_user 5 0 True) = 5" "author (sample_tip 1 1 {|2, 3|} {||}) = 1"
    "can_downvote (sample_user 5 0 True)"
    by (simp_all add: sample_user_def sample_tip_def can_downvote_def)
  from upvote_then_downvote [OF h1 h2 h3 h4] h1 h2 h3 n u show ?thesis
    by simp
qed

text \<open>
  Claim C8. \<open>upvote_tip\<close> never answers with a permission error, and for every
  authenticated user and existing tip it performs its toggle: the user leaves the
  downvoters, and leaves the upvoters if a member, joins them otherwise. Nothing in
  this depends on the user's reputation, authorship or superuser flag.
\<close>

theorem upvote_tip_ungated:
  "(\<forall>m. kind (fst (upvote_tip req tid d)) \<noteq> HttpResponseForbidden m)
   \<and> (request_user req d = Some u \<and> get_tip d tid = Some t \<longrightarrow>
        upvotes_all (snd (upvote_tip req tid d)) tid =
          (if user_id u |\<in>| upvotes_all d tid then upvotes_all d tid |-| {|user_id u|}
           else finsert (user_id u) (upvotes_all d tid))
        \<and> downvotes_all (snd (upvote_tip req tid d)) tid = downvotes_all d tid |-| {|user_id u|})
   \<and> (request_user req d = Some u \<and> get_tip d tid = Some t \<and> get_user d (author t) = Some a \<longrightarrow>
        kind (fst (upvote_tip req tid d)) = Redirect ''home'')"
proof (intro conjI impI allI)
  fix m
  show "kind (fst (upvote_tip req tid d)) \<noteq> HttpResponseForbidden m"
    by (simp add: upvote_tip_def Let_def respond_def split: option.splits)
next
  assume h: "request_user req d = Some u \<and> get_tip d tid = Some t"
  then have u: "request_user req d = Some u" and t: "get_tip d tid = Some t" by simp_all
  show "upvotes_all (snd (upvote_tip req tid d)) tid =
          (if user_id u |\<in>| upvotes_all d tid then upvotes_all d tid |-| {|user_id u|}
           else finsert (user_id u) (upvotes_all d tid))"
    by (simp add: upvote_tip_votes [OF u t])
  show "downvotes_all (snd (upvote_tip req tid d)) tid = downvotes_all d tid |-| {|user_id u|}"
    by (simp add: upvote_tip_votes [OF u t])
next
  assume "request_user req d = Some u \<and> get_tip d tid = Some t \<and> get_user d (author t) = Some a"
  then show "kind (fst (upvote_tip req tid d)) = Redirect ''home''"
    by (simp add: upvote_tip_def Let_def respond_def get_user_m2m)
qed

theorem upvote_tip_ungated_witness:
  "request_user (sample_request (Some 3)) sample_db = Some (sample_user 3 0 False)
   \<and> get_tip sample_db 4 = Some (sample_tip 4 2 {|1|} {||})
   \<and> get_user sample_db 2 = Some (sample_user 2 5 False)
   \<and> kind (fst (upvote_tip (sample_request (Some 3)) 4 sample_db)) = Redirect ''home''
   \<and> upvotes_all (snd (upvote_tip (sample_request (Some 3)) 4 sample_db)) 4 = {|3, 1|}
   \<and> downvotes_all (snd (upvote_tip (sample_request (Some 3)) 4 sample_db)) 4 = {||}
   \<and> kind (fst (downvote_tip (sample_request (Some 3)) 4 sample_db))
        = HttpResponseForbidden ''You don't have permission to downvote this tip.''"
proof -
  have h1: "request_user (sample_request (Some 3)) sample_db = Some (sample_user 3 0 False)"
    by (simp add: sample_defs)
  have h2: "get_tip sample_db 4 = Some (sample_tip 4 2 {|1|} {||})"
    by (simp add: sample_defs)
  have h3: "get_user sample_db (author (sample_tip 4 2 {|1|} {||})) = Some (sample_user 2 5 False)"
    by (simp add: sample_defs)
  have q: "upvotes_all sample_db 4 = {|1|}" "downvotes_all sample_db 4 = {||}"
    "user_id (sample_user 3 0 False) = 3" "author (sample_tip 4 2 {|1|} {||}) = 2"
    by (simp_all add: sample_defs)
  have dv: "kind (fst (downvote_tip (sample_request (Some 3)) 4 sample_db))
        = HttpResponseForbidden ''You don't have permission to downvote this tip.''"
    using h1 h2 h3 by (simp add: downvote_tip_def can_downvote_def respond_def sample_user_def)
  note th = upvote_tip_ungated [of "sample_request (Some 3)" 4 sample_db "sample_user 3 0 False"
      "sample_tip 4 2 {|1|} {||}" "sample_user 2 5 False"]
  from th h1 h2 h3 have "kind (fst (upvote_tip (sample_request (Some 3)) 4 sample_db)) = Redirect ''home''"
    by blast
  moreover from th h1 h2 q
  have "upvotes_all (snd (upvote_tip (sample_request (Some 3)) 4 sample_db)) 4 = {|3, 1|}"
    by simp
  moreover from th h1 h2 q
  have "downvotes_all (snd (upvote_tip (sample_request (Some 3)) 4 sample_db)) 4 = {||}"
    by simp
  ultimately show ?thesis using h1 h2 h3 q dv by simp
qed

section \<open>The downvote permission\<close>

text \<open>
  Claim C3. For an existing tip and an authenticated voter, \<open>downvote_tip\<close> goes through
  exactly when the voter is the tip's author, has reputation at least 15, or is a
  superuser. When refused it answers 403 and the database is unchanged; when permitted
  it toggles the voter's downvote. A voter who is not the author and not a superuser is
  refused with reputation 14 and permitted with reputation 15.
\<close>

theorem downvote_tip_gate:
  assumes "request_user req d = Some u" and "get_tip d tid = Some t"
    and "get_user d (author t) = Some a"
  shows "(kind (fst (downvote_tip req tid d)) = Redirect ''home''
            \<longleftrightarrow> user_id u = author t \<or> reputation u \<ge> 15 \<or> is_superuser u)
       \<and> (\<not> (user_id u = author t \<or> reputation u \<ge> 15 \<or> is_superuser u) \<longrightarrow>
            downvote_tip req tid d =
              (respond (HttpResponseForbidden ''You don't have permission to downvote this tip.''), d))
       \<and> (user_id u = author t \<or> reputation u \<ge> 15 \<or> is_superuser u \<longrightarrow>
            downvotes_all (snd (downvote_tip req tid d)) tid =
              (if user_id u |\<in>| downvotes_all d tid then downvotes_all d tid |-| {|user_id u|}
               else finsert (user_id u) (downvotes_all d tid))
            \<and> upvotes_all (snd (downvote_tip req tid d)) tid = upvotes_all d tid |-| {|user_id u|})
       \<and> (user_id u \<noteq> author t \<and> \<not> is_superuser u \<and> reputation u = 14 \<longrightarrow>
            kind (fst (downvote_tip req tid d))
              = HttpResponseForbidden ''You don't have permission to downvote this tip.''
            \<and> snd (downvote_tip req tid d) = d)
       \<and> (user_id u \<noteq> author t \<and> \<not> is_superuser u \<and> reputation u = 15 \<longrightarrow>
            kind (fst (downvote_tip req tid d)) = Redirect ''home'')"
proof -
  from get_user_id [OF assms(3)] have ida: "user_id a = author t" .
  have gate: "(user_id u = user_id a \<or> can_downvote u)
                \<longleftrightarrow> (user_id u = author t \<or> reputation u \<ge> 15 \<or> is_superuser u)"
    by (simp add: ida can_downvote_def)
  have refused: "\<not> (user_id u = author t \<or> reputation u \<ge> 15 \<or> is_superuser u) \<Longrightarrow>
      downvote_tip req tid d =
        (respond (HttpResponseForbidden ''You don't have permission to downvote this tip.''), d)"
    using assms gate by (simp add: downvote_tip_def)
  have permitted: "user_id u = author t \<or> reputation u \<ge> 15 \<or> is_superuser u \<Longrightarrow>
      kind (fst (downvote_tip req tid d)) = Redirect ''home''"
    using assms gate by (simp add: downvote_tip_def Let_def respond_def)
  have c1: "kind (fst (downvote_tip req tid d)) = Redirect ''home''
            \<longleftrightarrow> user_id u = author t \<or> reputation u \<ge> 15 \<or> is_superuser u"
  proof (cases "user_id u = author t \<or> reputation u \<ge> 15 \<or> is_superuser u")
    case True
    with permitted show ?thesis by simp
  next
    case False
    from refused [OF False] False show ?thesis by (simp add: respond_def)
  qed
  have c3: "user_id u = author t \<or> reputation u \<ge> 15 \<or> is_superuser u \<Longrightarrow>
            downvotes_all (snd (downvote_tip req tid d)) tid =
              (if user_id u |\<in>| downvotes_all d tid then downvotes_all d tid |-| {|user_id u|}
               else finsert (user_id u) (downvotes_all d tid))
            \<and> upvotes_all (snd (downvote_tip req tid d)) tid = upvotes_all d tid |-| {|user_id u|}"
  proof -
    assume "user_id u = author t \<or> reputation u \<ge> 15 \<or> is_superuser u"
    with gate have g: "user_id u = user_id a \<or> can_downvote u" by simp
    show ?thesis by (simp add: downvote_tip_votes [OF assms g])
  qed
  have c4: "user_id u \<noteq> author t \<and> \<not> is_superuser u \<and> reputation u = 14 \<Longrightarrow>
            kind (fst (downvote_tip req tid d))
              = HttpResponseForbidden ''You don't have permission to downvote this tip.''
            \<and> snd (downvote_tip req tid d) = d"
  proof -
    assume "user_id u \<noteq> author t \<and> \<not> is_superuser u \<and> reputation u = 14"
    then have "\<not> (user_id u = author t \<or> reputation u \<ge> 15 \<or> is_superuser u)" by simp
    from refused [OF this] show ?thesis by (simp add: respond_def)
  qed
  have c5: "user_id u \<noteq> author t \<and> \<not> is_superuser u \<and> reputation u = 15 \<Longrightarrow>
            kind (fst (downvote_tip req tid d)) = Redirect ''home''"
    using permitted by simp
  from c1 refused c3 c4 c5 show ?thesis by blast
qed

theorem downvote_tip_gate_witness:
  "request_user (sample_request (Some 2)) gate_db = Some (sample_user 2 14 False)
   \<and> request_user (sample_request (Some 3)) gate_db = Some (sample_user 3 15 False)
   \<and> get_tip gate_db 1 = Some (sample_tip 1 1 {||} {||})
   \<and> get_user gate_db 1 = Some (sample_user 1 3 False)
   \<and> downvote_tip (sample_request (Some 2)) 1 gate_db
        = (respond (HttpResponseForbidden ''You don't have permission to downvote this tip.''), gate_db)
   \<and> kind (fst (downvote_tip (sample_request (Some 3)) 1 gate_db)) = Redirect ''home''
   \<and> downvotes_all (snd (downvote_tip (sample_request (Some 3)) 1 gate_db)) 1 = {|3|}"
proof -
  have u2: "request_user (sample_request (Some 2)) gate_db = Some (sample_user 2 14 False)"
    and u3: "request_user (sample_request (Some 3)) gate_db = Some (sample_user 3 15 False)"
    and t: "get_tip gate_db 1 = Some (sample_tip 1 1 {||} {||})"
    and a: "get_user gate_db (author (sample_tip 1 1 {||} {||})) = Some (sample_user 1 3 False)"
    by (simp_all add: sample_defs)
  have f2: "user_id (sample_user 2 14 False) \<noteq> author (sample_tip 1 1 {||} {||})
      \<and> \<not> is_superuser (sample_user 2 14 False) \<and> reputation (sample_user 2 14 False) = 14"
    and f3: "user_id (sample_user 3 15 False) \<noteq> author (sample_tip 1 1 {||} {||})
      \<and> \<not> is_superuser (sample_user 3 15 False) \<and> reputation (sample_user 3 15 False) = 15"
    and q: "downvotes_all gate_db 1 = {||}" "user_id (sample_user 3 15 False) = 3"
       "author (sample_tip 1 1 {||} {||}) = 1"
    by (simp_all add: sample_defs)
  note th2 = downvote_tip_gate [OF u2 t a]
  note th3 = downvote_tip_gate [OF u3 t a]
  from th2 f2 have r2: "downvote_tip (sample_request (Some 2)) 1 gate_db
        = (respond (HttpResponseForbidden ''You don't have permission to downvote this tip.''), gate_db)"
    by simp
  from th3 f3 have r3: "kind (fst (downvote_tip (sample_request (Some 3)) 1 gate_db)) = Redirect ''home''"
    by simp
  from th3 f3 q have r4: "downvotes_all (snd (downvote_tip (sample_request (Some 3)) 1 gate_db)) 1 = {|3|}"
    by simp
  from u2 u3 t a q r2 r3 r4 show ?thesis by simp
qed

section \<open>The delete permission\<close>

text \<open>
  Claim C4. For an existing tip and an authenticated requester, \<open>delete_tip\<close> goes
  through exactly when the requester is the tip's author, has reputation at least 30, or
  is a superuser. When refused it answers 403 and the database is unchanged. On success
  the tip's row is removed and then the author's reputation is recomputed from the
  author's remaining tips; no other user row changes.
\<close>

theorem delete_tip_gate:
  assumes "request_user req d = Some u" and "get_tip d tid = Some t"
    and "get_user d (author t) = Some a"
  shows "(kind (fst (delete_tip req tid d)) = Redirect ''home''
            \<longleftrightarrow> user_id u = author t \<or> reputation u \<ge> 30 \<or> is_superuser u)
       \<and> (\<not> (user_id u = author t \<or> reputation u \<ge> 30 \<or> is_superuser u) \<longrightarrow>
            delete_tip req tid d =
              (respond (HttpResponseForbidden ''You don't have permission to delete this tip.''), d))
       \<and> (user_id u = author t \<or> reputation u \<ge> 30 \<or> is_superuser u \<longrightarrow>
            snd (delete_tip req tid d)
              = update_reputation a (d\<lparr>tips := filter (\<lambda>x. tip_id x \<noteq> tid) (tips d)\<rparr>)
            \<and> tips (snd (delete_tip req tid d)) = filter (\<lambda>x. tip_id x \<noteq> tid) (tips d)
            \<and> get_tip (snd (delete_tip req tid d)) tid = None
            \<and> get_user (snd (delete_tip req tid d)) (author t) =
                Some (a\<lparr>reputation :=
                  max 0 (\<Sum>x\<leftarrow>filter (\<lambda>x. author x = author t)
                                    (filter (\<lambda>x. tip_id x \<noteq> tid) (tips d)).
                           5 * int (fcard (upvotes x)) - 2 * int (fcard (downvotes x)))\<rparr>)
            \<and> (\<forall>k. k \<noteq> author t \<longrightarrow> get_user (snd (delete_tip req tid d)) k = get_user d k))"
proof -
  let ?rest = "d\<lparr>tips := filter (\<lambda>x. tip_id x \<noteq> tid) (tips d)\<rparr>"
  from get_user_id [OF assms(3)] have ida: "user_id a = author t" .
  from get_tip_id [OF assms(2)] have idt: "tip_id t = tid" .
  have gate: "(user_id u = user_id a \<or> can_delete_tips u)
                \<longleftrightarrow> (user_id u = author t \<or> reputation u \<ge> 30 \<or> is_superuser u)"
    by (simp add: ida can_delete_tips_def)
  have refused: "\<not> (user_id u = author t \<or> reputation u \<ge> 30 \<or> is_superuser u) \<Longrightarrow>
      delete_tip req tid d =
        (respond (HttpResponseForbidden ''You don't have permission to delete this tip.''), d)"
    using assms gate by (simp add: delete_tip_def)
  have permitted: "user_id u = author t \<or> reputation u \<ge> 30 \<or> is_superuser u \<Longrightarrow>
      delete_tip req tid d = (respond (Redirect ''home''), update_reputation a ?rest)"
    using assms gate idt by (simp add: delete_tip_def Tip_delete_def)
  have c1: "kind (fst (delete_tip req tid d)) = Redirect ''home''
            \<longleftrightarrow> user_id u = author t \<or> reputation u \<ge> 30 \<or> is_superuser u"
  proof (cases "user_id u = author t \<or> reputation u \<ge> 30 \<or> is_superuser u")
    case True
    from permitted [OF True] True show ?thesis by (simp add: respond_def)
  next
    case False
    from refused [OF False] False show ?thesis by (simp add: respond_def)
  qed
  have gone: "get_tip (update_reputation a ?rest) tid = None"
    by (simp add: get_tip_update_reputation get_tip_def find_None_iff)
  have rep: "get_user (update_reputation a ?rest) (author t) =
                Some (a\<lparr>reputation :=
                  max 0 (\<Sum>x\<leftarrow>filter (\<lambda>x. author x = author t)
                                    (filter (\<lambda>x. tip_id x \<noteq> tid) (tips d)).
                           5 * int (fcard (upvotes x)) - 2 * int (fcard (downvotes x)))\<rparr>)"
    by (simp add: get_user_update_reputation_iff ida tips_all_def)
  have others: "\<forall>k. k \<noteq> author t \<longrightarrow> get_user (update_reputation a ?rest) k = get_user d k"
  proof (intro allI impI)
    fix k assume "k \<noteq> author t"
    then have "get_user (update_reputation a ?rest) k = get_user ?rest k"
      by (simp add: get_user_update_reputation_iff ida)
    also have "\<dots> = get_user d k" by (simp add: get_user_def)
    finally show "get_user (update_reputation a ?rest) k = get_user d k" .
  qed
  have c3: "user_id u = author t \<or> reputation u \<ge> 30 \<or> is_superuser u \<Longrightarrow>
            snd (delete_tip req tid d) = update_reputation a ?rest
            \<and> tips (snd (delete_tip req tid d)) = filter (\<lambda>x. tip_id x \<noteq> tid) (tips d)
            \<and> get_tip (snd (delete_tip req tid d)) tid = None
            \<and> get_user (snd (delete_tip req tid d)) (author t) =
                Some (a\<lparr>reputation :=
                  max 0 (\<Sum>x\<leftarrow>filter (\<lambda>x. author x = author t)
                                    (filter (\<lambda>x. tip_id x \<noteq> tid) (tips d)).
                           5 * int (fcard (upvotes x)) - 2 * int (fcard (downvotes x)))\<rparr>)
            \<and> (\<forall>k. k \<noteq> author t \<longrightarrow> get_user (snd (delete_tip req tid d)) k = get_user d k)"
    using gone rep others by (simp add: permitted tips_update_reputation)
  from c1 refused c3 show ?thesis by blast
qed

theorem delete_tip_gate_witness:
  "request_user (sample_request (Some 4)) gate_db = Some (sample_user 4 29 False)
   \<and> request_user (sample_request (Some 5)) gate_db = Some (sample_user 5 30 False)
   \<and> get_tip gate_db 2 = Some (sample_tip 2 1 {|2|} {|3|})
   \<and> get_user gate_db 1 = Some (sample_user 1 3 False)
   \<and> delete_tip (sample_request (Some 4)) 2 gate_db
        = (respond (HttpResponseForbidden ''You don't have permission to delete this tip.''), gate_db)
   \<and> kind (fst (delete_tip (sample_request (Some 5)) 2 gate_db)) = Redirect ''home''
   \<and> tips (snd (delete_tip (sample_request (Some 5)) 2 gate_db)) = [sample_tip 1 1 {||} {||}]
   \<and> get_user (snd (delete_tip (sample_request (Some 5)) 2 gate_db)) 1 = Some (sample_user 1 0 False)"
proof -
  have u4: "request_user (sample_request (Some 4)) gate_db = Some (sample_user 4 29 False)"
    and u5: "request_user (sample_request (Some 5)) gate_db = Some (sample_user 5 30 False)"
    and t: "get_tip gate_db 2 = Some (sample_tip 2 1 {|2|} {|3|})"
    and a: "get_user gate_db (author (sample_tip 2 1 {|2|} {|3|})) = Some (sample_user 1 3 False)"
    by (simp_all add: sample_defs)
  have f4: "\<not> (user_id (sample_user 4 29 False) = author (sample_tip 2 1 {|2|} {|3|})
      \<or> reputation (sample_user 4 29 False) \<ge> 30 \<or> is_superuser (sample_user 4 29 False))"
    and f5: "user_id (sample_user 5 30 False) = author (sample_tip 2 1 {|2|} {|3|})
      \<or> reputation (sample_user 5 30 False) \<ge> 30 \<or> is_superuser (sample_user 5 30 False)"
    and q: "author (sample_tip 2 1 {|2|} {|3|}) = 1"
      "filter (\<lambda>x. tip_id x \<noteq> 2) (tips gate_db) = [sample_tip 1 1 {||} {||}]"
      "author (sample_tip 1 1 {||} {||}) = 1"
      "fcard (upvotes (sample_tip 1 1 {||} {||})) = 0"
      "fcard (downvotes (sample_tip 1 1 {||} {||})) = 0"
      "(sample_user 1 3 False)\<lparr>reputation := 0\<rparr> = sample_user 1 0 False"
    by (simp_all add: sample_defs)
  note th4 = delete_tip_gate [OF u4 t a]
  note th5 = delete_tip_gate [OF u5 t a]
  from th4 f4 have r4: "delete_tip (sample_request (Some 4)) 2 gate_db
        = (respond (HttpResponseForbidden ''You don't have permission to delete this tip.''), gate_db)"
    by blast
  from th5 f5 have r5: "kind (fst (delete_tip (sample_request (Some 5)) 2 gate_db)) = Redirect ''home''"
    by blast
  from th5 f5 have "tips (snd (delete_tip (sample_request (Some 5)) 2 gate_db))
        = filter (\<lambda>x. tip_id x \<noteq> 2) (tips gate_db)"
    by blast
  with q have r6: "tips (snd (delete_tip (sample_request (Some 5)) 2 gate_db)) = [sample_tip 1 1 {||} {||}]"
    by simp
  from th5 f5 have "get_user (snd (delete_tip (sample_request (Some 5)) 2 gate_db))
          (author (sample_tip 2 1 {|2|} {|3|})) =
        Some ((sample_user 1 3 False)\<lparr>reputation :=
          max 0 (\<Sum>x\<leftarrow>filter (\<lambda>x. author x = author (sample_tip 2 1 {|2|} {|3|}))
                            (filter (\<lambda>x. tip_id x \<noteq> 2) (tips gate_db)).
                   5 * int (fcard (upvotes x)) - 2 * int (fcard (downvotes x)))\<rparr>)"
    by blast
  with q have r7: "get_user (snd (delete_tip (sample_request (Some 5)) 2 gate_db)) 1
        = Some (sample_user 1 0 False)"
    by simp
  from u4 u5 t a q(1) r4 r5 r6 r7 show ?thesis by simp
qed

section \<open>Reputation is never negative\<close>

text \<open>
  Claim C5. After every operation the stored reputation is a non-negative integer, and
  a user whose vote total is negative is stored with reputation exactly 0.
  \<^item> If every stored reputation is non-negative, it is so again after every sequence of
    tip creations, upvotes, downvotes and deletions.
  \<^item> Each of the four operations, when it goes through, leaves the author it concerns
    with the stored reputation max(0, vote total in the state the operation leaves):
    exactly 0 when that total is negative, whatever was stored before.
  \<^item> From a state with unique tip keys in which every stored reputation is the clamped
    vote total, every sequence of the four operations leads to such a state again: every
    user then has the reputation max(0, vote total), exactly 0 when the total is negative.
  The concrete check has a downvote that takes a total from 1 to -1 (stored 1, then 0)
  and a deletion that leaves an author with one tip of no upvote and 20 downvotes, a
  total of -40 (stored 10, then 0).
\<close>

theorem reputation_never_negative:
  "((\<forall>v\<in>set (users d). 0 \<le> reputation v)
      \<longrightarrow> (\<forall>v\<in>set (users (run_actions acts d)). 0 \<le> reputation v))
   \<and> (request_user req d = Some u \<and> form (POST req) = Some c \<longrightarrow>
        get_user (snd (HomePageView_post form now req d)) (user_id u)
          = Some (u\<lparr>reputation :=
                    max 0 (vote_total (user_id u) (snd (HomePageView_post form now req d)))\<rparr>)
        \<and> (vote_total (user_id u) (snd (HomePageView_post form now req d)) < 0 \<longrightarrow>
             map_option reputation
               (get_user (snd (HomePageView_post form now req d)) (user_id u)) = Some 0))
   \<and> (request_user req d = Some u \<and> get_tip d tid = Some t \<and> get_user d (author t) = Some a \<longrightarrow>
        get_user (snd (upvote_tip req tid d)) (author t)
          = Some (a\<lparr>reputation := max 0 (vote_total (author t) (snd (upvote_tip req tid d)))\<rparr>)
        \<and> (vote_total (author t) (snd (upvote_tip req tid d)) < 0 \<longrightarrow>
             map_option reputation (get_user (snd (upvote_tip req tid d)) (author t)) = Some 0))
   \<and> (request_user req d = Some u \<and> get_tip d tid = Some t \<and> get_user d (author t) = Some a
        \<and> (user_id u = author t \<or> can_downvote u) \<longrightarrow>
        get_user (snd (downvote_tip req tid d)) (author t)
          = Some (a\<lparr>reputation := max 0 (vote_total (author t) (snd (downvote_tip req tid d)))\<rparr>)
        \<and> (vote_total (author t) (snd (downvote_tip req tid d)) < 0 \<longrightarrow>
             map_option reputation (get_user (snd (downvote_tip req tid d)) (author t)) = Some 0))
   \<and> (request_user req d = Some u \<and> get_tip d tid = Some t \<and> get_user d (author t) = Some a
        \<and> (user_id u = author t \<or> can_delete_tips u) \<longrightarrow>
        get_user (snd (delete_tip req tid d)) (author t)
          = Some (a\<lparr>reputation := max 0 (vote_total (author t) (snd (delete_tip req tid d)))\<rparr>)
        \<and> (vote_total (author t) (snd (delete_tip req tid d)) < 0 \<longrightarrow>
             map_option reputation (get_user (snd (delete_tip req tid d)) (author t)) = Some 0))
   \<and> (distinct (map tip_id (tips d)) \<and> (\<forall>x\<in>set (tips d). tip_id x \<le> tip_seq d)
        \<and> (\<forall>k v. get_user d k = Some v \<longrightarrow> reputation v = max 0 (vote_total k d)) \<longrightarrow>
        (\<forall>k v. get_user (run_actions acts d) k = Some v \<longrightarrow>
           reputation v = max 0 (vote_total k (run_actions acts d))
           \<and> (vote_total k (run_actions acts d) < 0 \<longrightarrow> reputation v = 0)))"
proof -
  have c1: "(\<forall>v\<in>set (users d). 0 \<le> reputation v)
      \<longrightarrow> (\<forall>v\<in>set (users (run_actions acts d)). 0 \<le> reputation v)"
    using run_actions_nonneg by blast
  have c2: "request_user req d = Some u \<and> form (POST req) = Some c \<longrightarrow>
        get_user (snd (HomePageView_post form now req d)) (user_id u)
          = Some (u\<lparr>reputation :=
                    max 0 (vote_total (user_id u) (snd (HomePageView_post form now req d)))\<rparr>)
        \<and> (vote_total (user_id u) (snd (HomePageView_post form now req d)) < 0 \<longrightarrow>
             map_option reputation
               (get_user (snd (HomePageView_post form now req d)) (user_id u)) = Some 0)"
  proof
    assume "request_user req d = Some u \<and> form (POST req) = Some c"
    then have "\<exists>d2. snd (HomePageView_post form now req d) = update_reputation u d2"
      using HomePageView_post_recomputes by blast
    then show "get_user (snd (HomePageView_post form now req d)) (user_id u)
          = Some (u\<lparr>reputation :=
                    max 0 (vote_total (user_id u) (snd (HomePageView_post form now req d)))\<rparr>)
        \<and> (vote_total (user_id u) (snd (HomePageView_post form now req d)) < 0 \<longrightarrow>
             map_option reputation
               (get_user (snd (HomePageView_post form now req d)) (user_id u)) = Some 0)"
      by (rule recomputed_is_clamped_total) simp
  qed
  have c3: "request_user req d = Some u \<and> get_tip d tid = Some t \<and> get_user d (author t) = Some a \<longrightarrow>
        get_user (snd (upvote_tip req tid d)) (author t)
          = Some (a\<lparr>reputation := max 0 (vote_total (author t) (snd (upvote_tip req tid d)))\<rparr>)
        \<and> (vote_total (author t) (snd (upvote_tip req tid d)) < 0 \<longrightarrow>
             map_option reputation (get_user (snd (upvote_tip req tid d)) (author t)) = Some 0)"
  proof
    assume h: "request_user req d = Some u \<and> get_tip d tid = Some t \<and> get_user d (author t) = Some a"
    then have "\<exists>d2. snd (upvote_tip req tid d) = update_reputation a d2"
      using upvote_tip_recomputes by blast
    moreover from h have "user_id a = author t" using get_user_id by blast
    ultimately show "get_user (snd (upvote_tip req tid d)) (author t)
          = Some (a\<lparr>reputation := max 0 (vote_total (author t) (snd (upvote_tip req tid d)))\<rparr>)
        \<and> (vote_total (author t) (snd (upvote_tip req tid d)) < 0 \<longrightarrow>
             map_option reputation (get_user (snd (upvote_tip req tid d)) (author t)) = Some 0)"
      by (rule recomputed_is_clamped_total)
  qed
  have c4: "request_user req d = Some u \<and> get_tip d tid = Some t \<and> get_user d (author t) = Some a
        \<and> (user_id u = author t \<or> can_downvote u) \<longrightarrow>
        get_user (snd (downvote_tip req tid d)) (author t)
          = Some (a\<lparr>reputation := max 0 (vote_total (author t) (snd (downvote_tip req tid d)))\<rparr>)
        \<and> (vote_total (author t) (snd (downvote_tip req tid d)) < 0 \<longrightarrow>
             map_option reputation (get_user (snd (downvote_tip req tid d)) (author t)) = Some 0)"
  proof
    assume h: "request_user req d = Some u \<and> get_tip d tid = Some t \<and> get_user d (author t) = Some a
        \<and> (user_id u = author t \<or> can_downvote u)"
    then have "\<exists>d2. snd (downvote_tip req tid d) = update_reputation a d2"
      using downvote_tip_recomputes by blast
    moreover from h have "user_id a = author t" using get_user_id by blast
    ultimately show "get_user (snd (downvote_tip req tid d)) (author t)
          = Some (a\<lparr>reputation := max 0 (vote_total (author t) (snd (downvote_tip req tid d)))\<rparr>)
        \<and> (vote_total (author t) (snd (downvote_tip req tid d)) < 0 \<longrightarrow>
             map_option reputation (get_user (snd (downvote_tip req tid d)) (author t)) = Some 0)"
      by (rule recomputed_is_clamped_total)
  qed
  have c5: "request_user req d = Some u \<and> get_tip d tid = Some t \<and> get_user d (author t) = Some a
        \<and> (user_id u = author t \<or> can_delete_tips u) \<longrightarrow>
        get_user (snd (delete_tip req tid d)) (author t)
          = Some (a\<lparr>reputation := max 0 (vote_total (author t) (snd (delete_tip req tid d)))\<rparr>)
        \<and> (vote_total (author t) (snd (delete_tip req tid d)) < 0 \<longrightarrow>
             map_option reputation (get_user (snd (delete_tip req tid d)) (author t)) = Some 0)"
  proof
    assume h: "request_user req d = Some u \<and> get_tip d tid = Some t \<and> get_user d (author t) = Some a
        \<and> (user_id u = author t \<or> can_delete_tips u)"
    then have "\<exists>d2. snd (delete_tip req tid d) = update_reputation a d2"
      using delete_tip_recomputes by blast
    moreover from h have "user_id a = author t" using get_user_id by blast
    ultimately show "get_user (snd (delete_tip req tid d)) (author t)
          = Some (a\<lparr>reputation := max 0 (vote_total (author t) (snd (delete_tip req tid d)))\<rparr>)
        \<and> (vote_total (author t) (snd (delete_tip req tid d)) < 0 \<longrightarrow>
             map_option reputation (get_user (snd (delete_tip req tid d)) (author t)) = Some 0)"
      by (rule recomputed_is_clamped_total)
  qed
  have c6: "distinct (map tip_id (tips d)) \<and> (\<forall>x\<in>set (tips d). tip_id x \<le> tip_seq d)
        \<and> (\<forall>k v. get_user d k = Some v \<longrightarrow> reputation v = max 0 (vote_total k d)) \<longrightarrow>
        (\<forall>k v. get_user (run_actions acts d) k = Some v \<longrightarrow>
           reputation v = max 0 (vote_total k (run_actions acts d))
           \<and> (vote_total k (run_actions acts d) < 0 \<longrightarrow> reputation v = 0))"
  proof
    assume h: "distinct (map tip_id (tips d)) \<and> (\<forall>x\<in>set (tips d). tip_id x \<le> tip_seq d)
        \<and> (\<forall>k v. get_user d k = Some v \<longrightarrow> reputation v = max 0 (vote_total k d))"
    then have "\<forall>k v. get_user (run_actions acts d) k = Some v \<longrightarrow>
              reputation v = max 0 (vote_total k (run_actions acts d))"
      using run_actions_consistent by blast
    then show "\<forall>k v. get_user (run_actions acts d) k = Some v \<longrightarrow>
           reputation v = max 0 (vote_total k (run_actions acts d))
           \<and> (vote_total k (run_actions acts d) < 0 \<longrightarrow> reputation v = 0)"
      by auto
  qed
  from c1 c2 c3 c4 c5 c6 show ?thesis by blast
qed

theorem reputation_never_negative_witness:
  "list_all (\<lambda>v. 0 \<le> reputation v) (users sample_db)
   \<and> list_all (\<lambda>v. 0 \<le> reputation v) (users (run_actions sample_actions sample_db))
   \<and> request_user (sample_request (Some 5)) edge_db = Some (sample_user 5 0 True)
   \<and> get_tip edge_db 1 = Some (sample_tip 1 1 {|2|} {|3, 4|})
   \<and> get_user edge_db 1 = Some (sample_user 1 1 False)
   \<and> can_downvote (sample_user 5 0 True)
   \<and> vote_total 1 (snd (downvote_tip (sample_request (Some 5)) 1 edge_db)) = - 1
   \<and> get_user (snd (downvote_tip (sample_request (Some 5)) 1 edge_db)) 1
        = Some (sample_user 1 0 False)
   \<and> request_user (sample_request (Some 1)) clamp_db = Some (sample_user 1 10 False)
   \<and> get_tip clamp_db 2 = Some (sample_tip 2 1 (fset_of_list [2..<12]) {||})
   \<and> tips (snd (delete_tip (sample_request (Some 1)) 2 clamp_db))
        = [sample_tip 1 1 {||} (fset_of_list [2..<22])]
   \<and> fcard (upvotes (sample_tip 1 1 {||} (fset_of_list [2..<22]))) = 0
   \<and> fcard (downvotes (sample_tip 1 1 {||} (fset_of_list [2..<22]))) = 20
   \<and> vote_total 1 (snd (delete_tip (sample_request (Some 1)) 2 clamp_db)) = - 40
   \<and> get_user (snd (delete_tip (sample_request (Some 1)) 2 clamp_db)) 1
        = Some (sample_user 1 0 False)
   \<and> get_user (snd (upvote_tip (sample_request (Some 3)) 4 sample_db)) 2
        = Some (sample_user 2 10 False)
   \<and> get_user (snd (HomePageView_post sample_form 7 sample_post sample_db)) 3
        = Some (sample_user 3 0 False)
   \<and> distinct (map tip_id (tips sample_db))
   \<and> list_all (\<lambda>x. tip_id x \<le> tip_seq sample_db) (tips sample_db)
   \<and> list_all (\<lambda>v. reputation v = max 0 (vote_total (user_id v) sample_db)) (users sample_db)
   \<and> vote_total 1 (run_actions sample_actions sample_db) = - 3
   \<and> get_user (run_actions sample_actions sample_db) 1 = Some (sample_user 1 0 False)"
proof -
  \<comment> \<open>the invariant over a sequence of all four operations\<close>
  have n0: "\<forall>v\<in>set (users sample_db). 0 \<le> reputation v"
    by (simp add: sample_db_def sample_user_def)
  note inv = reputation_never_negative [where d = sample_db and acts = sample_actions]
  from inv n0 have "\<forall>v\<in>set (users (run_actions sample_actions sample_db)). 0 \<le> reputation v"
    by blast
  then have w1: "list_all (\<lambda>v. 0 \<le> reputation v) (users (run_actions sample_actions sample_db))"
    by (simp add: list_all_iff)
  from n0 have w0: "list_all (\<lambda>v. 0 \<le> reputation v) (users sample_db)"
    by (simp add: list_all_iff)
  \<comment> \<open>a downvote that takes the total from 1 to -1\<close>
  have d1: "request_user (sample_request (Some 5)) edge_db = Some (sample_user 5 0 True)"
    and d2: "get_tip edge_db 1 = Some (sample_tip 1 1 {|2|} {|3, 4|})"
    and d3: "get_user edge_db (author (sample_tip 1 1 {|2|} {|3, 4|})) = Some (sample_user 1 1 False)"
    and d4: "user_id (sample_user 5 0 True) = author (sample_tip 1 1 {|2|} {|3, 4|})
             \<or> can_downvote (sample_user 5 0 True)"
    and d5: "can_downvote (sample_user 5 0 True)"
    and d6: "author (sample_tip 1 1 {|2|} {|3, 4|}) = 1"
    and d7: "(sample_user 1 1 False)\<lparr>reputation := 0\<rparr> = sample_user 1 0 False"
    by (simp_all add: edge_db_def sample_defs can_downvote_def)
  have dt: "tips (snd (downvote_tip (sample_request (Some 5)) 1 edge_db))
      = [sample_tip 1 1 {|2|} {|5, 3, 4|}]"
    by (simp add: edge_db_def sample_defs view_defs tips_save_user)
  have dv: "vote_total 1 (snd (downvote_tip (sample_request (Some 5)) 1 edge_db)) = - 1"
    unfolding dt by (simp add: sample_tip_def fcard_finsert_if fcard_fempty)
  from reputation_never_negative [where d = edge_db and req = "sample_request (Some 5)"
      and u = "sample_user 5 0 True" and tid = 1 and t = "sample_tip 1 1 {|2|} {|3, 4|}"
      and a = "sample_user 1 1 False"] d1 d2 d3 d4
  have "get_user (snd (downvote_tip (sample_request (Some 5)) 1 edge_db))
          (author (sample_tip 1 1 {|2|} {|3, 4|}))
        = Some ((sample_user 1 1 False)\<lparr>reputation :=
            max 0 (vote_total (author (sample_tip 1 1 {|2|} {|3, 4|}))
                     (snd (downvote_tip (sample_request (Some 5)) 1 edge_db)))\<rparr>)"
    by blast
  with d6 d7 dv have dr: "get_user (snd (downvote_tip (sample_request (Some 5)) 1 edge_db)) 1
        = Some (sample_user 1 0 False)"
    by simp
  \<comment> \<open>a deletion that leaves one tip with no upvote and twenty downvotes\<close>
  have card20: "fcard (fset_of_list [2..<22::nat]) = 20" by code_simp
  have e1: "request_user (sample_request (Some 1)) clamp_db = Some (sample_user 1 10 False)"
    and e2: "get_tip clamp_db 2 = Some (sample_tip 2 1 (fset_of_list [2..<12]) {||})"
    and e3: "get_user clamp_db (author (sample_tip 2 1 (fset_of_list [2..<12]) {||}))
               = Some (sample_user 1 10 False)"
    and e4: "user_id (sample_user 1 10 False) = author (sample_tip 2 1 (fset_of_list [2..<12]) {||})
             \<or> can_delete_tips (sample_user 1 10 False)"
    and e6: "author (sample_tip 2 1 (fset_of_list [2..<12]) {||}) = 1"
    and e7: "(sample_user 1 10 False)\<lparr>reputation := 0\<rparr> = sample_user 1 0 False"
    by (simp_all add: clamp_db_def sample_defs)
  have et: "tips (snd (delete_tip (sample_request (Some 1)) 2 clamp_db))
     = [sample_tip 1 1 {||} (fset_of_list [2..<22])]"
    by (simp add: clamp_db_def sample_defs delete_tip_def Tip_delete_def tips_update_reputation)
  have ec: "fcard (upvotes (sample_tip 1 1 {||} (fset_of_list [2..<22]))) = 0"
    "fcard (downvotes (sample_tip 1 1 {||} (fset_of_list [2..<22]))) = 20"
    using card20 by (simp_all add: sample_tip_def)
  have ev: "vote_total 1 (snd (delete_tip (sample_request (Some 1)) 2 clamp_db)) = - 40"
    unfolding et using ec by (simp add: sample_tip_def)
  from reputation_never_negative [where d = clamp_db and req = "sample_request (Some 1)"
      and u = "sample_user 1 10 False" and tid = 2
      and t = "sample_tip 2 1 (fset_of_list [2..<12]) {||}"
      and a = "sample_user 1 10 False"] e1 e2 e3 e4
  have "get_user (snd (delete_tip (sample_request (Some 1)) 2 clamp_db))
          (author (sample_tip 2 1 (fset_of_list [2..<12]) {||}))
        = Some ((sample_user 1 10 False)\<lparr>reputation :=
            max 0 (vote_total (author (sample_tip 2 1 (fset_of_list [2..<12]) {||}))
                     (snd (delete_tip (sample_request (Some 1)) 2 clamp_db)))\<rparr>)"
    by blast
  with e6 e7 ev have er: "get_user (snd (delete_tip (sample_request (Some 1)) 2 clamp_db)) 1
        = Some (sample_user 1 0 False)"
    by simp
  \<comment> \<open>an upvote and a new tip\<close>
  have u1: "request_user (sample_request (Some 3)) sample_db = Some (sample_user 3 0 False)"
    and u2: "get_tip sample_db 4 = Some (sample_tip 4 2 {|1|} {||})"
    and u3: "get_user sample_db (author (sample_tip 4 2 {|1|} {||})) = Some (sample_user 2 5 False)"
    and u6: "author (sample_tip 4 2 {|1|} {||}) = 2"
    and u7: "(sample_user 2 5 False)\<lparr>reputation := 10\<rparr> = sample_user 2 10 False"
    by (simp_all add: sample_defs)
  have ut: "tips (snd (upvote_tip (sample_request (Some 3)) 4 sample_db))
      = [sample_tip 1 1 {|2, 3|} {||}, sample_tip 2 1 {|2|} {|3|},
         sample_tip 3 1 {||} {|2, 3, 4|}, sample_tip 4 2 {|3, 1|} {||}]"
    by (simp add: sample_defs view_defs tips_save_user)
  have uv: "vote_total 2 (snd (upvote_tip (sample_request (Some 3)) 4 sample_db)) = 10"
    unfolding ut by (simp add: sample_tip_def fcard_finsert_if fcard_fempty)
  from reputation_never_negative [where d = sample_db and req = "sample_request (Some 3)"
      and u = "sample_user 3 0 False" and tid = 4 and t = "sample_tip 4 2 {|1|} {||}"
      and a = "sample_user 2 5 False"] u1 u2 u3
  have "get_user (snd (upvote_tip (sample_request (Some 3)) 4 sample_db))
          (author (sample_tip 4 2 {|1|} {||}))
        = Some ((sample_user 2 5 False)\<lparr>reputation :=
            max 0 (vote_total (author (sample_tip 4 2 {|1|} {||}))
                     (snd (upvote_tip (sample_request (Some 3)) 4 sample_db)))\<rparr>)"
    by blast
  with u6 u7 uv have ur: "get_user (snd (upvote_tip (sample_request (Some 3)) 4 sample_db)) 2
        = Some (sample_user 2 10 False)"
    by simp
  have p1: "request_user sample_post sample_db = Some (sample_user 3 0 False)"
    and p2: "sample_form (POST sample_post) = Some ''a new tip''"
    and p6: "user_id (sample_user 3 0 False) = 3"
    and p7: "(sample_user 3 0 False)\<lparr>reputation := 0\<rparr> = sample_user 3 0 False"
    by (simp_all add: sample_post_def sample_form_def sample_defs)
  have pt: "filter (\<lambda>x. author x = 3) (tips (snd (HomePageView_post sample_form 7 sample_post sample_db)))
      = [\<lparr>tip_id = 5, content = ''a new tip'', author = 3, date = 7,
           upvotes = {||}, downvotes = {||}\<rparr>]"
    using p1 p2
    by (simp add: HomePageView_post_def Tip_save_def tips_update_reputation Let_def
          sample_db_def sample_user_def sample_tip_def)
  have pv: "vote_total 3 (snd (HomePageView_post sample_form 7 sample_post sample_db)) = 0"
    unfolding pt by (simp add: fcard_fempty)
  from reputation_never_negative [where d = sample_db and req = sample_post
      and u = "sample_user 3 0 False" and form = sample_form and c = "''a new tip''" and now = 7]
    p1 p2
  have "get_user (snd (HomePageView_post sample_form 7 sample_post sample_db))
          (user_id (sample_user 3 0 False))
        = Some ((sample_user 3 0 False)\<lparr>reputation :=
            max 0 (vote_total (user_id (sample_user 3 0 False))
                     (snd (HomePageView_post sample_form 7 sample_post sample_db)))\<rparr>)"
    by blast
  with p6 p7 pv have pr: "get_user (snd (HomePageView_post sample_form 7 sample_post sample_db)) 3
        = Some (sample_user 3 0 False)"
    by simp
  \<comment> \<open>stored reputations and vote totals agree after the sequence\<close>
  have s1: "distinct (map tip_id (tips sample_db))"
    and s2: "\<forall>x\<in>set (tips sample_db). tip_id x \<le> tip_seq sample_db"
    by (simp_all add: sample_db_def sample_tip_def)
  have s3: "\<forall>k v. get_user sample_db k = Some v \<longrightarrow> reputation v = max 0 (vote_total k sample_db)"
    by (auto simp: sample_defs fcard_finsert_if fcard_fempty split: if_splits)
  have s3': "list_all (\<lambda>v. reputation v = max 0 (vote_total (user_id v) sample_db)) (users sample_db)"
    by (simp add: sample_db_def sample_user_def sample_tip_def fcard_finsert_if fcard_fempty)
  have run: "run_actions sample_actions sample_db =
   \<lparr>users = [sample_user 1 0 False, sample_user 2 3 False, sample_user 3 5 False,
             sample_user 4 0 False, sample_user 5 0 True],
    tips = [sample_tip 2 1 {|2|} {|3|}, sample_tip 3 1 {||} {|2, 3, 4|},
            sample_tip 4 2 {|1|} {|5|},
            \<lparr>tip_id = 5, content = ''a new tip'', author = 3, date = 7,
              upvotes = {|2|}, downvotes = {||}\<rparr>],
    tip_seq = 5\<rparr>"
    by (simp add: run_actions_def sample_actions_def sample_form_def sample_defs view_defs
          HomePageView_post_def Tip_save_def delete_tip_def Tip_delete_def can_delete_tips_def
          fcard_finsert_if fcard_fempty)
  have rg: "get_user (run_actions sample_actions sample_db) 1 = Some (sample_user 1 0 False)"
    unfolding run by (simp add: get_user_def sample_user_def)
  have rv: "vote_total 1 (run_actions sample_actions sample_db) = - 3"
    unfolding run by (simp add: sample_tip_def fcard_finsert_if fcard_fempty)
  from inv s1 s2 s3 have "\<forall>k v. get_user (run_actions sample_actions sample_db) k = Some v \<longrightarrow>
           reputation v = max 0 (vote_total k (run_actions sample_actions sample_db))
           \<and> (vote_total k (run_actions sample_actions sample_db) < 0 \<longrightarrow> reputation v = 0)"
    by blast
  with rg rv have "reputation (sample_user 1 0 False) = 0" by simp
  from s2 have s2': "list_all (\<lambda>x. tip_id x \<le> tip_seq sample_db) (tips sample_db)"
    by (simp add: list_all_iff)
  from d3 d6 have d3': "get_user edge_db 1 = Some (sample_user 1 1 False)" by simp
  show ?thesis
    using w0 w1 d1 d2 d3' d5 dv dr e1 e2 et ec ev er ur pr s1 s2' s3' rv rg
    by (intro conjI)
qed

section \<open>The guest name cookie\<close>

text \<open>
  Claim C10. For every request without a \<open>defaultName\<close> cookie (or with an empty one),
  from an anonymous visitor or not, the middleware picks a guest name (one of
  \<open>NAMES_LIST\<close>, or the fixed name when the list is absent or empty), hands it to the
  view as \<open>request.defaultName\<close>, and sets it on the response as the cookie
  \<open>defaultName\<close> with a \<open>max_age\<close> of 42 seconds.
\<close>

theorem guest_name_cookie:
  assumes "COOKIES req ''defaultName'' = None \<or> COOKIES req ''defaultName'' = Some []"
  shows "\<exists>username.
           fst (UsernameMiddleware_call get_response NAMES_LIST rnd req s)
             = set_cookie ''defaultName'' username 42
                 (fst (get_response (req\<lparr>defaultName := Some username\<rparr>) s))
         \<and> snd (UsernameMiddleware_call get_response NAMES_LIST rnd req s)
             = snd (get_response (req\<lparr>defaultName := Some username\<rparr>) s)
         \<and> cookies (fst (UsernameMiddleware_call get_response NAMES_LIST rnd req s)) ''defaultName''
             = Some \<lparr>cookie_value = username, max_age = Some 42\<rparr>
         \<and> (case NAMES_LIST of
               None \<Rightarrow> username = ''defaultName''
             | Some names \<Rightarrow>
                 if names = [] then username = ''defaultName'' else username \<in> set names)"
proof -
  define username where "username =
    (case NAMES_LIST of
       None \<Rightarrow> ''defaultName''
     | Some names \<Rightarrow> if names = [] then ''defaultName'' else names ! (rnd mod length names))"
  have call: "UsernameMiddleware_call get_response NAMES_LIST rnd req s =
      (set_cookie ''defaultName'' username 42
         (fst (get_response (req\<lparr>defaultName := Some username\<rparr>) s)),
       snd (get_response (req\<lparr>defaultName := Some username\<rparr>) s))"
    using assms
    by (auto simp: UsernameMiddleware_call_def Let_def username_def split: prod.splits)
  have chosen: "case NAMES_LIST of
               None \<Rightarrow> username = ''defaultName''
             | Some names \<Rightarrow>
                 if names = [] then username = ''defaultName'' else username \<in> set names"
    by (simp add: username_def split: option.splits)
  have ck: "cookies (set_cookie ''defaultName'' username 42
         (fst (get_response (req\<lparr>defaultName := Some username\<rparr>) s))) ''defaultName''
             = Some \<lparr>cookie_value = username, max_age = Some 42\<rparr>"
    by (simp add: set_cookie_def)
  from call chosen ck show ?thesis
    by (intro exI [of _ username]) simp
qed

theorem guest_name_cookie_witness:
  "session_user (sample_request None) = None
   \<and> COOKIES (sample_request None) ''defaultName'' = None
   \<and> map_option max_age
        (cookies (fst (UsernameMiddleware_call sample_get_response (Some [''Alice'', ''Bob'']) 3
                         (sample_request None) ())) ''defaultName'') = Some (Some 42)
   \<and> cookies (fst (UsernameMiddleware_call sample_get_response (Some [''Alice'', ''Bob'']) 3
                         (sample_request None) ())) ''defaultName''
        = Some \<lparr>cookie_value = ''Bob'', max_age = Some 42\<rparr>"
proof -
  have h: "COOKIES (sample_request None) ''defaultName'' = None
      \<or> COOKIES (sample_request None) ''defaultName'' = Some []"
    by (simp add: sample_request_def)
  from guest_name_cookie [OF h, of sample_get_response "Some [''Alice'', ''Bob'']" 3 "()"]
  have c1: "map_option max_age
        (cookies (fst (UsernameMiddleware_call sample_get_response (Some [''Alice'', ''Bob'']) 3
                         (sample_request None) ())) ''defaultName'') = Some (Some 42)"
    by auto
  have idx: "[''Alice'', ''Bob''] ! (3 mod Suc (Suc 0)) = ''Bob''"
    by code_simp
  have c2: "cookies (fst (UsernameMiddleware_call sample_get_response (Some [''Alice'', ''Bob'']) 3
                         (sample_request None) ())) ''defaultName''
        = Some \<lparr>cookie_value = ''Bob'', max_age = Some 42\<rparr>"
    by (simp add: idx UsernameMiddleware_call_def sample_request_def sample_get_response_def
          set_cookie_def respond_def)
  from c1 c2 show ?thesis by (simp add: sample_request_def)
qed

section \<open>Voting on one's own tip\<close>

text \<open>
  Claim C9, as amended. An authenticated author who is neither an upvoter nor a downvoter
  of their own tip may upvote it (tip keys being unique): the request succeeds, the
  author becomes an upvoter, and the author's stored reputation becomes the maximum of 0
  and the vote total of the author's tips before the request plus 5. That is an increase
  by 5 when the stored reputation was that vote total and not negative.
\<close>

theorem self_upvote_reputation:
  assumes "request_user req d = Some a" and "get_tip d tid = Some t"
    and "author t = user_id a" and "distinct (map tip_id (tips d))"
    and "user_id a |\<notin>| upvotes_all d tid" and "user_id a |\<notin>| downvotes_all d tid"
  shows "kind (fst (upvote_tip req tid d)) = Redirect ''home''
       \<and> user_id a |\<in>| upvotes_all (snd (upvote_tip req tid d)) tid
       \<and> get_user (snd (upvote_tip req tid d)) (user_id a) =
            Some (a\<lparr>reputation :=
              max 0 ((\<Sum>x\<leftarrow>filter (\<lambda>x. author x = user_id a) (tips d).
                        5 * int (fcard (upvotes x)) - 2 * int (fcard (downvotes x))) + 5)\<rparr>)
       \<and> (reputation a = (\<Sum>x\<leftarrow>filter (\<lambda>x. author x = user_id a) (tips d).
                             5 * int (fcard (upvotes x)) - 2 * int (fcard (downvotes x)))
            \<and> 0 \<le> reputation a \<longrightarrow>
            map_option reputation (get_user (snd (upvote_tip req tid d)) (user_id a))
              = Some (reputation a + 5))"
proof -
  let ?uid = "user_id a"
  let ?d2 = "upvotes_add tid ?uid d"
  from assms(1) obtain k where "session_user req = Some k" and "get_user d k = Some a"
    by (auto simp: request_user_def split: option.splits)
  with get_user_id [of d k a] have ga: "get_user d ?uid = Some a" by simp
  have run: "upvote_tip req tid d = (respond (Redirect ''home''), update_reputation a ?d2)"
    using assms(1,2,3,5,6) ga
    by (simp add: upvote_tip_def Let_def get_user_m2m)
  have c1: "kind (fst (upvote_tip req tid d)) = Redirect ''home''"
    by (simp add: run respond_def)
  have c2: "?uid |\<in>| upvotes_all (snd (upvote_tip req tid d)) tid"
    using assms(5) by (simp add: upvote_tip_votes [OF assms(1,2)])
  from assms(2,5) have notin: "?uid |\<notin>| upvotes t" by (simp add: upvotes_all_def)
  from assms(2) have found: "find (\<lambda>x. tip_id x = tid) (tips d) = Some t"
    by (simp add: get_tip_def)
  have total: "(\<Sum>x\<leftarrow>tips_all a ?d2. 5 * int (fcard (upvotes x)) - 2 * int (fcard (downvotes x)))
      = (\<Sum>x\<leftarrow>filter (\<lambda>x. author x = ?uid) (tips d).
            5 * int (fcard (upvotes x)) - 2 * int (fcard (downvotes x))) + 5"
    using score_after_add [OF assms(4) found assms(3) notin]
    by (simp add: tips_all_def upvotes_add_def)
  have c3: "get_user (snd (upvote_tip req tid d)) ?uid =
            Some (a\<lparr>reputation :=
              max 0 ((\<Sum>x\<leftarrow>filter (\<lambda>x. author x = ?uid) (tips d).
                        5 * int (fcard (upvotes x)) - 2 * int (fcard (downvotes x))) + 5)\<rparr>)"
    using get_user_update_reputation [of a ?d2] by (simp add: run total)
  have c4: "reputation a = (\<Sum>x\<leftarrow>filter (\<lambda>x. author x = ?uid) (tips d).
                             5 * int (fcard (upvotes x)) - 2 * int (fcard (downvotes x)))
            \<and> 0 \<le> reputation a \<longrightarrow>
            map_option reputation (get_user (snd (upvote_tip req tid d)) ?uid)
              = Some (reputation a + 5)"
    by (simp add: c3)
  from c1 c2 c3 c4 show ?thesis by blast
qed

theorem self_upvote_reputation_witness:
  "request_user (sample_request (Some 2)) sample_db = Some (sample_user 2 5 False)
   \<and> get_tip sample_db 4 = Some (sample_tip 4 2 {|1|} {||})
   \<and> author (sample_tip 4 2 {|1|} {||}) = user_id (sample_user 2 5 False)
   \<and> distinct (map tip_id (tips sample_db))
   \<and> 2 |\<notin>| upvotes_all sample_db 4 \<and> 2 |\<notin>| downvotes_all sample_db 4
   \<and> reputation (sample_user 2 5 False)
        = (\<Sum>x\<leftarrow>filter (\<lambda>x. author x = user_id (sample_user 2 5 False)) (tips sample_db).
             5 * int (fcard (upvotes x)) - 2 * int (fcard (downvotes x)))
   \<and> kind (fst (upvote_tip (sample_request (Some 2)) 4 sample_db)) = Redirect ''home''
   \<and> 2 |\<in>| upvotes_all (snd (upvote_tip (sample_request (Some 2)) 4 sample_db)) 4
   \<and> map_option reputation (get_user (snd (upvote_tip (sample_request (Some 2)) 4 sample_db)) 2)
        = Some 10"
proof -
  have h1: "request_user (sample_request (Some 2)) sample_db = Some (sample_user 2 5 False)"
    and h2: "get_tip sample_db 4 = Some (sample_tip 4 2 {|1|} {||})"
    and h3: "author (sample_tip 4 2 {|1|} {||}) = user_id (sample_user 2 5 False)"
    and h4: "distinct (map tip_id (tips sample_db))"
    and h5: "user_id (sample_user 2 5 False) |\<notin>| upvotes_all sample_db 4"
    and h6: "user_id (sample_user 2 5 False) |\<notin>| downvotes_all sample_db 4"
    by (simp_all add: sample_defs)
  have s: "reputation (sample_user 2 5 False)
        = (\<Sum>x\<leftarrow>filter (\<lambda>x. author x = user_id (sample_user 2 5 False)) (tips sample_db).
             5 * int (fcard (upvotes x)) - 2 * int (fcard (downvotes x)))"
    by (simp add: sample_defs fcard_finsert_if fcard_fempty)
  have u: "user_id (sample_user 2 5 False) = 2" "reputation (sample_user 2 5 False) = 5"
    by (simp_all add: sample_user_def)
  note th = self_upvote_reputation [OF h1 h2 h3 h4 h5 h6]
  from th have c1: "kind (fst (upvote_tip (sample_request (Some 2)) 4 sample_db)) = Redirect ''home''"
    by blast
  from th u have c2: "2 |\<in>| upvotes_all (snd (upvote_tip (sample_request (Some 2)) 4 sample_db)) 4"
    by simp
  from th s u have c3: "map_option reputation
      (get_user (snd (upvote_tip (sample_request (Some 2)) 4 sample_db)) 2) = Some 10"
    by simp
  from h1 h2 h3 h4 h5 h6 s u c1 c2 c3 show ?thesis by simp
qed

text \<open>
  Claim C9 as first stated, an increase of the stored reputation by 5 at every such
  upvote, fails where the vote total is negative. A superuser downvotes the author's
  only tip: the total is -2 and the stored reputation 0. The author then upvotes the
  tip: the total is 3, and the stored reputation is 3, not 5.
\<close>

theorem self_upvote_plus_five_counterexample:
  "snd (downvote_tip (sample_request (Some 5)) 1 fresh_db) = self_vote_db
   \<and> request_user (sample_request (Some 1)) self_vote_db = Some (sample_user 1 0 False)
   \<and> get_tip self_vote_db 1 = Some (sample_tip 1 1 {||} {|5|})
   \<and> author (sample_tip 1 1 {||} {|5|}) = user_id (sample_user 1 0 False)
   \<and> 1 |\<notin>| upvotes_all self_vote_db 1 \<and> 1 |\<notin>| downvotes_all self_vote_db 1
   \<and> kind (fst (upvote_tip (sample_request (Some 1)) 1 self_vote_db)) = Redirect ''home''
   \<and> 1 |\<in>| upvotes_all (snd (upvote_tip (sample_request (Some 1)) 1 self_vote_db)) 1
   \<and> reputation (sample_user 1 0 False) = 0
   \<and> map_option reputation (get_user (snd (upvote_tip (sample_request (Some 1)) 1 self_vote_db)) 1)
        = Some 3
   \<and> map_option reputation (get_user (snd (upvote_tip (sample_request (Some 1)) 1 self_vote_db)) 1)
        \<noteq> Some (reputation (sample_user 1 0 False) + 5)"
proof -
  have r0: "snd (downvote_tip (sample_request (Some 5)) 1 fresh_db) = self_vote_db"
    by (simp add: fresh_db_def self_vote_db_def sample_defs view_defs fcard_finsert_if fcard_fempty)
  have up: "upvote_tip (sample_request (Some 1)) 1 self_vote_db =
      (respond (Redirect ''home''),
       \<lparr>users = [sample_user 1 3 False, sample_user 5 0 True],
        tips = [sample_tip 1 1 {|1|} {|5|}], tip_seq = 1\<rparr>)"
    by (simp add: self_vote_db_def sample_defs view_defs fcard_finsert_if fcard_fempty)
  have pre: "request_user (sample_request (Some 1)) self_vote_db = Some (sample_user 1 0 False)"
    "get_tip self_vote_db 1 = Some (sample_tip 1 1 {||} {|5|})"
    "author (sample_tip 1 1 {||} {|5|}) = user_id (sample_user 1 0 False)"
    "1 |\<notin>| upvotes_all self_vote_db 1" "1 |\<notin>| downvotes_all self_vote_db 1"
    "reputation (sample_user 1 0 False) = 0"
    by (simp_all add: self_vote_db_def sample_defs)
  have post: "kind (fst (upvote_tip (sample_request (Some 1)) 1 self_vote_db)) = Redirect ''home''"
    "1 |\<in>| upvotes_all (snd (upvote_tip (sample_request (Some 1)) 1 self_vote_db)) 1"
    "map_option reputation (get_user (snd (upvote_tip (sample_request (Some 1)) 1 self_vote_db)) 1)
        = Some 3"
    unfolding up by (simp_all add: sample_defs respond_def)
  have differs: "map_option reputation
        (get_user (snd (upvote_tip (sample_request (Some 1)) 1 self_vote_db)) 1)
        \<noteq> Some (reputation (sample_user 1 0 False) + 5)"
    unfolding post(3) pre(6) by simp
  from r0 pre post differs show ?thesis by blast
qed

end
